theory Spec2Isabelle
  imports Complex_Main "HOL-Library.AList" "HOL-Library.Multiset"
begin

section \<open>Values of the host language\<close>

subsection \<open>Numbers\<close>

text \<open>
  The source computes with the host language's \<^verbatim>\<open>number\<close>. The model keeps the three
  special values that steer the control flow of \<^verbatim>\<open>App.tsx\<close> (\<^verbatim>\<open>NaN\<close> and the two
  infinities) and takes every finite value as an exact real. Left out are the rounding
  of arithmetic, its overflow to an infinity, and the sign of zero; a statement below
  that an overflow would falsify carries a bound that rules it out. The conversion of a
  text to a number does keep the range of the type (see \<open>roundRange\<close>). No division of the
  source is reached with a zero divisor (each one is guarded), so the sign of zero
  decides nothing there.
\<close>

datatype jsnum = NaN | NegInf | Fin real | PosInf

instantiation jsnum :: comm_monoid_add
begin

definition zero_jsnum :: jsnum where
  "zero_jsnum = Fin 0"

fun plus_jsnum :: "jsnum \<Rightarrow> jsnum \<Rightarrow> jsnum" where
  "plus_jsnum NaN _ = NaN"
| "plus_jsnum _ NaN = NaN"
| "plus_jsnum PosInf NegInf = NaN"
| "plus_jsnum NegInf PosInf = NaN"
| "plus_jsnum PosInf _ = PosInf"
| "plus_jsnum _ PosInf = PosInf"
| "plus_jsnum NegInf _ = NegInf"
| "plus_jsnum _ NegInf = NegInf"
| "plus_jsnum (Fin a) (Fin b) = Fin (a + b)"

instance
proof
  fix x y z :: jsnum
  show "0 + x = x"
    unfolding zero_jsnum_def by (cases x) auto
  show "x + y = y + x"
    by (cases x; cases y; simp)
  show "x + y + z = x + (y + z)"
    by (cases x; cases y; cases z; simp)
qed

end

instantiation jsnum :: "{uminus, minus, times, inverse}"
begin

fun uminus_jsnum :: "jsnum \<Rightarrow> jsnum" where
  "uminus_jsnum NaN = NaN"
| "uminus_jsnum NegInf = PosInf"
| "uminus_jsnum PosInf = NegInf"
| "uminus_jsnum (Fin a) = Fin (- a)"

definition minus_jsnum :: "jsnum \<Rightarrow> jsnum \<Rightarrow> jsnum" where
  "minus_jsnum a b = a + (- b)"

text \<open>The sign of an infinity times or over a finite value; zero counts as positive zero.\<close>

fun times_jsnum :: "jsnum \<Rightarrow> jsnum \<Rightarrow> jsnum" where
  "times_jsnum NaN _ = NaN"
| "times_jsnum _ NaN = NaN"
| "times_jsnum (Fin a) (Fin b) = Fin (a * b)"
| "times_jsnum (Fin a) PosInf = (if a = 0 then NaN else if 0 < a then PosInf else NegInf)"
| "times_jsnum (Fin a) NegInf = (if a = 0 then NaN else if 0 < a then NegInf else PosInf)"
| "times_jsnum PosInf (Fin b) = (if b = 0 then NaN else if 0 < b then PosInf else NegInf)"
| "times_jsnum NegInf (Fin b) = (if b = 0 then NaN else if 0 < b then NegInf else PosInf)"
| "times_jsnum PosInf PosInf = PosInf"
| "times_jsnum NegInf NegInf = PosInf"
| "times_jsnum PosInf NegInf = NegInf"
| "times_jsnum NegInf PosInf = NegInf"

fun divide_jsnum :: "jsnum \<Rightarrow> jsnum \<Rightarrow> jsnum" where
  "divide_jsnum NaN _ = NaN"
| "divide_jsnum _ NaN = NaN"
| "divide_jsnum (Fin a) (Fin b) =
     (if b = 0 then (if a = 0 then NaN else if 0 < a then PosInf else NegInf)
      else Fin (a / b))"
| "divide_jsnum (Fin a) _ = Fin 0"
| "divide_jsnum PosInf (Fin b) = (if 0 \<le> b then PosInf else NegInf)"
| "divide_jsnum NegInf (Fin b) = (if 0 \<le> b then NegInf else PosInf)"
| "divide_jsnum _ _ = NaN"

definition inverse_jsnum :: "jsnum \<Rightarrow> jsnum" where
  "inverse_jsnum a = Rings.divide (Fin 1) a"

instance ..

end

text \<open>\<^verbatim>\<open>a < b\<close> and \<^verbatim>\<open>a > b\<close>: false as soon as one side is \<^verbatim>\<open>NaN\<close>.\<close>

fun lt :: "jsnum \<Rightarrow> jsnum \<Rightarrow> bool" where
  "lt NaN _ = False"
| "lt _ NaN = False"
| "lt (Fin a) (Fin b) = (a < b)"
| "lt NegInf NegInf = False"
| "lt NegInf _ = True"
| "lt _ NegInf = False"
| "lt PosInf _ = False"
| "lt _ PosInf = True"

definition gt :: "jsnum \<Rightarrow> jsnum \<Rightarrow> bool" where
  "gt a b = lt b a"

text \<open>\<^verbatim>\<open>a === b\<close> and \<^verbatim>\<open>a !== b\<close> on numbers: \<^verbatim>\<open>NaN\<close> is equal to nothing.\<close>

definition strictEq :: "jsnum \<Rightarrow> jsnum \<Rightarrow> bool" where
  "strictEq a b = (a \<noteq> NaN \<and> b \<noteq> NaN \<and> a = b)"

definition strictNe :: "jsnum \<Rightarrow> jsnum \<Rightarrow> bool" where
  "strictNe a b = (\<not> strictEq a b)"

definition isNaN :: "jsnum \<Rightarrow> bool" where
  "isNaN a = (a = NaN)"

text \<open>Truthiness of a number: \<^verbatim>\<open>0\<close> and \<^verbatim>\<open>NaN\<close> are falsy.\<close>

definition truthyNum :: "jsnum \<Rightarrow> bool" where
  "truthyNum a = (a \<noteq> NaN \<and> a \<noteq> Fin 0)"

text \<open>\<^verbatim>\<open>x || 0\<close> for a number \<^verbatim>\<open>x\<close>.\<close>

definition orZero :: "jsnum \<Rightarrow> jsnum" where
  "orZero a = (if truthyNum a then a else Fin 0)"

text \<open>\<^verbatim>\<open>Math.max(...xs)\<close> and \<^verbatim>\<open>Math.min(...xs)\<close>: the empty spread gives the infinity
  the scan starts from, a \<^verbatim>\<open>NaN\<close> argument gives \<^verbatim>\<open>NaN\<close>.\<close>

definition max2 :: "jsnum \<Rightarrow> jsnum \<Rightarrow> jsnum" where
  "max2 a b = (if a = NaN \<or> b = NaN then NaN else if lt a b then b else a)"

definition min2 :: "jsnum \<Rightarrow> jsnum \<Rightarrow> jsnum" where
  "min2 a b = (if a = NaN \<or> b = NaN then NaN else if lt b a then b else a)"

definition mathMax :: "jsnum list \<Rightarrow> jsnum" where
  "mathMax xs = foldl max2 NegInf xs"

definition mathMin :: "jsnum list \<Rightarrow> jsnum" where
  "mathMin xs = foldl min2 PosInf xs"

text \<open>\<^verbatim>\<open>Math.pow(x, 2)\<close> and \<^verbatim>\<open>Math.sqrt(x)\<close>.\<close>

fun powTwo :: "jsnum \<Rightarrow> jsnum" where
  "powTwo NaN = NaN"
| "powTwo (Fin a) = Fin (a * a)"
| "powTwo _ = PosInf"

fun mathSqrt :: "jsnum \<Rightarrow> jsnum" where
  "mathSqrt NaN = NaN"
| "mathSqrt NegInf = NaN"
| "mathSqrt PosInf = PosInf"
| "mathSqrt (Fin a) = (if a < 0 then NaN else Fin (sqrt a))"

definition ofNat :: "nat \<Rightarrow> jsnum" where
  "ofNat n = Fin (real n)"

subsection \<open>Values that are no numbers\<close>

text \<open>
  The type \<^verbatim>\<open>number\<close> that \<^verbatim>\<open>App.tsx\<close> declares for its dictionaries is not checked
  when the program runs. A dictionary of the source is a plain object, so reading it
  under a name that \<^verbatim>\<open>Object.prototype\<close> also has gives the inherited value (one of the
  prototype's functions, or the prototype itself under \<^verbatim>\<open>__proto__\<close>), and \<^verbatim>\<open>+\<close> with
  such a value is a concatenation, which gives a text. The model keeps these two kinds of
  value without their content: \<open>ProtoV\<close> is an inherited value, \<open>TextV\<close> a text made
  by such a concatenation. Such a text holds the source text of a function (or
  \<^verbatim>\<open>[object Object]\<close>), so it is not empty and reads as no number: both kinds are
  truthy, both differ from \<^verbatim>\<open>0\<close>, and arithmetic other than \<^verbatim>\<open>+\<close> turns both into
  \<^verbatim>\<open>NaN\<close>.
\<close>

datatype jsval = NumV jsnum | TextV | ProtoV

text \<open>\<^verbatim>\<open>a + b\<close>: the sum of two numbers, a concatenation otherwise.\<close>

instantiation jsval :: plus
begin

fun plus_jsval :: "jsval \<Rightarrow> jsval \<Rightarrow> jsval" where
  "plus_jsval (NumV a) (NumV b) = NumV (a + b)"
| "plus_jsval _ _ = TextV"

instance ..

end

text \<open>The number that \<^verbatim>\<open>/\<close> and \<^verbatim>\<open>*\<close> take from an operand.\<close>

fun toNum :: "jsval \<Rightarrow> jsnum" where
  "toNum (NumV a) = a"
| "toNum _ = NaN"

text \<open>\<^verbatim>\<open>x || 0\<close> and \<^verbatim>\<open>x !== 0\<close> for any value \<^verbatim>\<open>x\<close>.\<close>

fun orZeroV :: "jsval \<Rightarrow> jsval" where
  "orZeroV (NumV a) = NumV (orZero a)"
| "orZeroV v = v"

fun differsFromZero :: "jsval \<Rightarrow> bool" where
  "differsFromZero (NumV a) = strictNe a (Fin 0)"
| "differsFromZero _ = True"

text \<open>\<^verbatim>\<open>xs.reduce((acc, val) => acc + val, 0)\<close> over values.\<close>

definition sumV :: "jsval list \<Rightarrow> jsval" where
  "sumV xs = foldl (\<lambda>acc val. acc + val) (NumV (Fin 0)) xs"

subsection \<open>Strings and cells\<close>

text \<open>
  A string is the list of its code units; the model has the code units below 256. A cell
  of a sheet row is a string, a number, or absent (\<^verbatim>\<open>undefined\<close>, for a column the sheet
  does not have; an empty cell of a column the sheet has arrives as \<^verbatim>\<open>''\<close>).
\<close>

datatype cell = Undefined | Str string | Num jsnum

text \<open>White space and line terminators, as \<^verbatim>\<open>Number\<close> strips them from both ends.\<close>

definition isWhiteSpace :: "char \<Rightarrow> bool" where
  "isWhiteSpace c =
     (c \<in> set [CHR 0x09, CHR 0x0A, CHR 0x0B, CHR 0x0C, CHR 0x0D, CHR 0x20, CHR 0xA0])"

definition trim :: "string \<Rightarrow> string" where
  "trim s = rev (dropWhile isWhiteSpace (rev (dropWhile isWhiteSpace s)))"

definition digitTable :: "(char \<times> nat) list" where
  "digitTable =
     [(CHR ''0'', 0), (CHR ''1'', 1), (CHR ''2'', 2), (CHR ''3'', 3), (CHR ''4'', 4),
      (CHR ''5'', 5), (CHR ''6'', 6), (CHR ''7'', 7), (CHR ''8'', 8), (CHR ''9'', 9),
      (CHR ''a'', 10), (CHR ''b'', 11), (CHR ''c'', 12), (CHR ''d'', 13), (CHR ''e'', 14),
      (CHR ''f'', 15), (CHR ''A'', 10), (CHR ''B'', 11), (CHR ''C'', 12), (CHR ''D'', 13),
      (CHR ''E'', 14), (CHR ''F'', 15)]"

text \<open>The value of a non-empty run of digits of the base, \<open>None\<close> for anything else.\<close>

fun digitsFrom :: "nat \<Rightarrow> nat \<Rightarrow> string \<Rightarrow> nat option" where
  "digitsFrom base acc [] = Some acc"
| "digitsFrom base acc (c # cs) =
     (case map_of digitTable c of
        None \<Rightarrow> None
      | Some d \<Rightarrow> if d < base then digitsFrom base (base * acc + d) cs else None)"

definition digits :: "nat \<Rightarrow> string \<Rightarrow> nat option" where
  "digits base s = (if s = [] then None else digitsFrom base 0 s)"

text \<open>\<^verbatim>\<open>0x\<close>, \<^verbatim>\<open>0o\<close> and \<^verbatim>\<open>0b\<close> literals (they take no sign).\<close>

definition nonDecimal :: "string \<Rightarrow> nat option" where
  "nonDecimal t =
     (case t of
        z # p # ds \<Rightarrow>
          if z \<noteq> CHR ''0'' then None
          else if p = CHR ''x'' \<or> p = CHR ''X'' then digits 16 ds
          else if p = CHR ''o'' \<or> p = CHR ''O'' then digits 8 ds
          else if p = CHR ''b'' \<or> p = CHR ''B'' then digits 2 ds
          else None
      | _ \<Rightarrow> None)"

text \<open>The exponent part after \<^verbatim>\<open>e\<close> or \<^verbatim>\<open>E\<close>: an optional sign and decimal digits.\<close>

definition exponent :: "string \<Rightarrow> int option" where
  "exponent s =
     (case s of
        [] \<Rightarrow> None
      | c # r \<Rightarrow>
          if c = CHR ''-'' then map_option (\<lambda>n. - int n) (digits 10 r)
          else if c = CHR ''+'' then map_option int (digits 10 r)
          else map_option int (digits 10 s))"

text \<open>The digits before and after the point: one of the two may be missing, not both.\<close>

definition mantissa :: "string \<Rightarrow> real option" where
  "mantissa s =
     (let ip = takeWhile (\<lambda>c. c \<noteq> CHR ''.'') s;
          rest = dropWhile (\<lambda>c. c \<noteq> CHR ''.'') s
      in if rest = [] then map_option real (digits 10 ip)
         else
           (let fp = tl rest
            in if ip = [] \<and> fp = [] then None
               else
                 (case (if ip = [] then Some 0 else digits 10 ip,
                        if fp = [] then Some 0 else digits 10 fp) of
                    (Some i, Some f) \<Rightarrow> Some (real i + real f / 10 ^ length fp)
                  | _ \<Rightarrow> None)))"

definition scale :: "real \<Rightarrow> int \<Rightarrow> real" where
  "scale m e = (if 0 \<le> e then m * 10 ^ nat e else m / 10 ^ nat (- e))"

text \<open>
  The conversion rounds the value a literal denotes to the nearest number of the type.
  Of that rounding the model keeps the range: a value from \<open>2^1024 - 2^970\<close> on (half
  a step above the largest finite number) becomes \<^verbatim>\<open>Infinity\<close>, a value up to
  \<open>2^-1075\<close> (half the least positive number) becomes \<^verbatim>\<open>0\<close>, so that
  \<^verbatim>\<open>Number('1e400')\<close> is \<^verbatim>\<open>Infinity\<close> and \<^verbatim>\<open>Number('1e-400')\<close> is \<^verbatim>\<open>0\<close>. The argument
  is not negative.
\<close>

definition roundRange :: "real \<Rightarrow> jsnum" where
  "roundRange r =
     (if 2 ^ 1024 - 2 ^ 970 \<le> r then PosInf
      else if r \<le> 1 / 2 ^ 1075 then Fin 0
      else Fin r)"

definition isExpChar :: "char \<Rightarrow> bool" where
  "isExpChar c = (c = CHR ''e'' \<or> c = CHR ''E'')"

definition unsignedDecimal :: "string \<Rightarrow> jsnum" where
  "unsignedDecimal s =
     (if s = ''Infinity'' then PosInf
      else
        (let ms = takeWhile (\<lambda>c. \<not> isExpChar c) s;
             rest = dropWhile (\<lambda>c. \<not> isExpChar c) s
         in case mantissa ms of
              None \<Rightarrow> NaN
            | Some m \<Rightarrow>
                if rest = [] then roundRange m
                else
                  (case exponent (tl rest) of
                     None \<Rightarrow> NaN
                   | Some e \<Rightarrow> roundRange (scale m e))))"

text \<open>\<^verbatim>\<open>Number(s)\<close> for a string: the empty and the all-white string give \<^verbatim>\<open>0\<close>, a
  string that is no numeric literal gives \<^verbatim>\<open>NaN\<close>.\<close>

definition stringToNumber :: "string \<Rightarrow> jsnum" where
  "stringToNumber s =
     (let t = trim s
      in if t = [] then Fin 0
         else
           (case nonDecimal t of
              Some n \<Rightarrow> roundRange (real n)
            | None \<Rightarrow>
                if hd t = CHR ''-'' then - unsignedDecimal (tl t)
                else if hd t = CHR ''+'' then unsignedDecimal (tl t)
                else unsignedDecimal t))"

text \<open>\<^verbatim>\<open>Number(x)\<close> for a cell; \<^verbatim>\<open>Number(undefined)\<close> is \<^verbatim>\<open>NaN\<close>.\<close>

fun Number :: "cell \<Rightarrow> jsnum" where
  "Number Undefined = NaN"
| "Number (Str s) = stringToNumber s"
| "Number (Num n) = n"

text \<open>Truthiness of a cell: \<^verbatim>\<open>undefined\<close>, \<^verbatim>\<open>''\<close>, \<^verbatim>\<open>0\<close> and \<^verbatim>\<open>NaN\<close> are falsy.\<close>

fun truthy :: "cell \<Rightarrow> bool" where
  "truthy Undefined = False"
| "truthy (Str s) = (s \<noteq> [])"
| "truthy (Num n) = truthyNum n"

text \<open>\<^verbatim>\<open>s.split(c)\<close> with a one-character separator: never empty, the pieces between
  the separators, empty pieces kept.\<close>

fun split :: "char \<Rightarrow> string \<Rightarrow> string list" where
  "split c [] = [[]]"
| "split c (x # xs) =
     (if x = c then [] # split c xs
      else (case split c xs of [] \<Rightarrow> [[x]] | p # ps \<Rightarrow> (x # p) # ps))"

text \<open>An element of an array of strings inside a template literal: an index past the
  end reads \<^verbatim>\<open>undefined\<close>, which prints as such.\<close>

definition part :: "string list \<Rightarrow> nat \<Rightarrow> string" where
  "part ps i = (if i < length ps then ps ! i else ''undefined'')"

subsection \<open>Objects used as dictionaries, and sorting\<close>

text \<open>
  Every dictionary of the source starts as the literal \<^verbatim>\<open>{}\<close>, an object whose
  prototype is \<^verbatim>\<open>Object.prototype\<close>. The model keeps the list of its own properties in
  the order they were created: writing an existing key keeps its place, a new key goes
  last (\<open>AList.update\<close> does both). The prototype is the same for all of them, and the
  source never changes it; these are the names of its properties.
\<close>

type_synonym 'v object = "(string \<times> 'v) list"

definition prototypeNames :: "string list" where
  "prototypeNames =
     [''constructor'', ''__defineGetter__'', ''__defineSetter__'', ''hasOwnProperty'',
      ''__lookupGetter__'', ''__lookupSetter__'', ''isPrototypeOf'', ''propertyIsEnumerable'',
      ''toString'', ''valueOf'', ''__proto__'', ''toLocaleString'']"

definition inherited :: "string \<Rightarrow> bool" where
  "inherited k = (k \<in> set prototypeNames)"

text \<open>
  \<^verbatim>\<open>obj[k]\<close>: the own property when there is one, else the inherited value under a name
  of the prototype, else \<^verbatim>\<open>undefined\<close>.
\<close>

datatype 'v lookup = Missing | Own 'v | Proto

definition getProp :: "'v object \<Rightarrow> string \<Rightarrow> 'v lookup" where
  "getProp obj k =
     (case map_of obj k of
        Some v \<Rightarrow> Own v
      | None \<Rightarrow> if inherited k then Proto else Missing)"

text \<open>
  \<^verbatim>\<open>obj[k] = v\<close> for a number or a text \<^verbatim>\<open>v\<close>, the only values the source assigns.
  Under \<^verbatim>\<open>__proto__\<close> the assignment runs the setter of the prototype, which ignores a
  value that is no object: no property is created. Under any other name the object gets
  or keeps an own property, also when the prototype has that name.
\<close>

definition setProp :: "string \<Rightarrow> 'v \<Rightarrow> 'v object \<Rightarrow> 'v object" where
  "setProp k v obj = (if k = ''__proto__'' then obj else AList.update k v obj)"

text \<open>\<^verbatim>\<open>obj[k] || 0\<close>.\<close>

definition propOrZero :: "jsval lookup \<Rightarrow> jsval" where
  "propOrZero p = (case p of Missing \<Rightarrow> NumV (Fin 0) | Own v \<Rightarrow> orZeroV v | Proto \<Rightarrow> ProtoV)"

text \<open>A property of a dictionary of numbers, read as \<^verbatim>\<open>prev\<close> or \<^verbatim>\<open>curr\<close> in
  \<^verbatim>\<open>prev !== 0 ? ((curr - prev) / prev) * 100 : 0\<close>: a value that is no number
  (\<^verbatim>\<open>undefined\<close> or an inherited one) differs from \<^verbatim>\<open>0\<close> and makes the quotient
  \<^verbatim>\<open>NaN\<close>, as \<^verbatim>\<open>NaN\<close> itself does.\<close>

definition numProp :: "jsnum object \<Rightarrow> string \<Rightarrow> jsnum" where
  "numProp obj k = (case getProp obj k of Own v \<Rightarrow> v | _ \<Rightarrow> NaN)"

text \<open>An array index: the canonical decimal form of an integer up to \<open>2^32 - 2\<close>.\<close>

definition arrayIndex :: "string \<Rightarrow> nat option" where
  "arrayIndex k =
     (case digits 10 k of
        None \<Rightarrow> None
      | Some n \<Rightarrow>
          if (k = ''0'' \<or> hd k \<noteq> CHR ''0'') \<and> n \<le> 4294967294 then Some n else None)"

definition indexOf :: "string \<Rightarrow> nat" where
  "indexOf k = (case arrayIndex k of None \<Rightarrow> 0 | Some n \<Rightarrow> n)"

text \<open>The own properties in enumeration order: array indices first, ascending, then the
  other keys in creation order. \<^verbatim>\<open>Object.keys\<close> and \<^verbatim>\<open>Object.values\<close> follow it.\<close>

definition objectEntries :: "'v object \<Rightarrow> (string \<times> 'v) list" where
  "objectEntries obj =
     sort_key (\<lambda>e. indexOf (fst e)) (filter (\<lambda>e. arrayIndex (fst e) \<noteq> None) obj)
     @ filter (\<lambda>e. arrayIndex (fst e) = None) obj"

definition objectKeys :: "'v object \<Rightarrow> string list" where
  "objectKeys obj = map fst (objectEntries obj)"

definition objectValues :: "'v object \<Rightarrow> 'v list" where
  "objectValues obj = map snd (objectEntries obj)"

text \<open>
  \<^verbatim>\<open>xs.sort(cmp)\<close>: the sort is stable, \<^verbatim>\<open>cmp(a, b) > 0\<close> puts \<^verbatim>\<open>b\<close> first, and a
  \<^verbatim>\<open>NaN\<close> from the comparator counts as \<^verbatim>\<open>0\<close>. For a consistent comparator the
  language fixes the result, which is the one below. For any other comparator (here: when
  a date is no date, so that its time is \<^verbatim>\<open>NaN\<close>) the language leaves the order to the
  engine, engines differ, and the model takes the order of a stable insertion sort; what
  is proved of the order of a sorted list is therefore proved under the hypothesis that
  the engine reads every date.
\<close>

fun insertBy :: "('a \<Rightarrow> 'a \<Rightarrow> jsnum) \<Rightarrow> 'a \<Rightarrow> 'a list \<Rightarrow> 'a list" where
  "insertBy cmp x [] = [x]"
| "insertBy cmp x (y # ys) =
     (if gt (cmp x y) (Fin 0) then y # insertBy cmp x ys else x # y # ys)"

definition sortBy :: "('a \<Rightarrow> 'a \<Rightarrow> jsnum) \<Rightarrow> 'a list \<Rightarrow> 'a list" where
  "sortBy cmp xs = foldr (insertBy cmp) xs []"

text \<open>The order of \<^verbatim>\<open>xs.sort()\<close> on strings: code unit by code unit.\<close>

fun compareCodeUnits :: "string \<Rightarrow> string \<Rightarrow> int" where
  "compareCodeUnits [] [] = 0"
| "compareCodeUnits [] (b # bs) = - 1"
| "compareCodeUnits (a # as) [] = 1"
| "compareCodeUnits (a # as) (b # bs) =
     (if (of_char a :: nat) < of_char b then - 1
      else if (of_char b :: nat) < of_char a then 1
      else compareCodeUnits as bs)"

definition ofInt :: "int \<Rightarrow> jsnum" where
  "ofInt i = Fin (real_of_int i)"

definition sortStrings :: "string list \<Rightarrow> string list" where
  "sortStrings xs = sortBy (\<lambda>a b. ofInt (compareCodeUnits a b)) xs"

subsection \<open>Dates\<close>

text \<open>
  \<^verbatim>\<open>new Date(s).getTime()\<close> is the engine's: the milliseconds since the epoch, or
  \<^verbatim>\<open>NaN\<close> for a string the engine does not read as a date. Which strings it reads
  beyond the ISO forms differs between engines, so the model takes the engine's parser
  as the parameter \<open>dateParse\<close> (\<open>None\<close> is the invalid date).
\<close>

definition getTime :: "(string \<Rightarrow> int option) \<Rightarrow> string \<Rightarrow> jsnum" where
  "getTime dateParse s = (case dateParse s of None \<Rightarrow> NaN | Some t \<Rightarrow> ofInt t)"

text \<open>\<^verbatim>\<open>formatDate\<close>, lines 133 to 140.\<close>

definition formatDate :: "string \<Rightarrow> string" where
  "formatDate rawDate =
     (let parts = split (CHR '' '') rawDate;
          dateParts = split (CHR ''/'') (hd parts)
      in if length dateParts = 3
         then dateParts ! 2 @ ''-'' @ dateParts ! 1 @ ''-'' @ dateParts ! 0
         else rawDate)"

text \<open>\<^verbatim>\<open>parseDate\<close>, lines 143 to 148: the text of line 147, and the date the engine
  makes of it, which the source reads through \<^verbatim>\<open>getTime()\<close> only.\<close>

definition dateTimeText :: "string \<Rightarrow> string" where
  "dateTimeText rawDate =
     (let parts = split (CHR '' '') rawDate;
          dateParts = split (CHR ''/'') (hd parts);
          timePart = (if 1 < length parts \<and> parts ! 1 \<noteq> [] then parts ! 1 else ''00:00:00'')
      in part dateParts 2 @ ''-'' @ part dateParts 1 @ ''-'' @ part dateParts 0
         @ '' '' @ timePart)"

definition parseDate :: "(string \<Rightarrow> int option) \<Rightarrow> string \<Rightarrow> jsnum" where
  "parseDate dateParse rawDate = getTime dateParse (dateTimeText rawDate)"

section \<open>The data model of \<^verbatim>\<open>App.tsx\<close>\<close>

text \<open>
  The interfaces of lines 20 to 34 declare the four number fields of a bucket as
  \<^verbatim>\<open>number\<close>; what the program stores there is whatever the dictionaries hold, which
  can be a text or an inherited value.
\<close>

record DailyData =
  date :: string
  profit :: jsval
  cumulativeProfit :: jsval
  balance :: jsval
  dailyPercentChange :: jsval

record MonthlyData =
  month :: string
  profit :: jsval
  cumulativeProfit :: jsval
  balance :: jsval
  monthlyPercentChange :: jsval

record RealizedEquityData =
  date :: string
  realizedEquity :: jsnum

record Stats =
  totalTrades :: nat
  profitableTrades :: nat
  lossTrades :: nat
  breakEvenTrades :: nat
  winRate :: jsnum
  totalProfit :: jsnum
  maxProfit :: jsnum
  minProfit :: jsnum
  avgProfit :: jsnum
  medianProfit :: jsnum
  stdDev :: jsnum
  averageDailyProfit :: jsnum
  projectedAnnualIncome :: jsnum
  dailyData :: "DailyData list"
  monthlyData :: "MonthlyData list"
  realizedEquityData :: "RealizedEquityData list"

text \<open>
  A row of the sheet \<^verbatim>\<open>Closed Positions\<close>, with the two columns the source reads:
  \<^verbatim>\<open>trade['Profit(USD)']\<close> and \<^verbatim>\<open>trade['Close Date']\<close>. The source reads the close
  date through its truthiness and through \<^verbatim>\<open>toString()\<close> only (lines 349 and 350), and
  the row keeps what these two see: \<open>None\<close> for a close date that is absent (or is the
  number \<^verbatim>\<open>0\<close> or \<^verbatim>\<open>NaN\<close>, which line 349 skips like an absent one), and otherwise
  the text of the cell (for a number, the text that \<^verbatim>\<open>toString()\<close> prints).
\<close>

record TradeRow =
  profitUSD :: cell
  closeDate :: "string option"

text \<open>A row of the sheet \<^verbatim>\<open>Account Activity\<close>: \<^verbatim>\<open>row.Date\<close>, \<^verbatim>\<open>row.Balance\<close> and
  \<^verbatim>\<open>row["Realized Equity"]\<close>.\<close>

record ActivityRow =
  Date :: cell
  Balance :: cell
  RealizedEquity :: cell

section \<open>\<^verbatim>\<open>computeStats\<close>, lines 309 to 438\<close>

text \<open>The filter of lines 311 to 314: \<^verbatim>\<open>trade['Profit(USD)'] !== ''\<close> and
  \<^verbatim>\<open>!isNaN(Number(trade['Profit(USD)']))\<close>.\<close>

definition isValid :: "TradeRow \<Rightarrow> bool" where
  "isValid trade = (profitUSD trade \<noteq> Str [] \<and> \<not> isNaN (Number (profitUSD trade)))"

definition validTrades :: "TradeRow list \<Rightarrow> TradeRow list" where
  "validTrades trades = filter isValid trades"

definition profitArray :: "TradeRow list \<Rightarrow> jsnum list" where
  "profitArray trades = map (\<lambda>trade. Number (profitUSD trade)) (validTrades trades)"

text \<open>\<^verbatim>\<open>xs.reduce((acc, val) => acc + val, 0)\<close>.\<close>

definition sumOf :: "jsnum list \<Rightarrow> jsnum" where
  "sumOf xs = foldl (\<lambda>acc val. acc + val) (Fin 0) xs"

text \<open>Lines 327 to 335.\<close>

definition median :: "jsnum list \<Rightarrow> jsnum" where
  "median profits =
     (let sortedProfit = sortBy (\<lambda>a b. a - b) profits
      in if 0 < length sortedProfit
         then
           (let mid = length sortedProfit div 2
            in if length sortedProfit mod 2 = 0
               then (sortedProfit ! (mid - 1) + sortedProfit ! mid) / Fin 2
               else sortedProfit ! mid)
         else Fin 0)"

text \<open>Lines 338 to 342; \<^verbatim>\<open>totalTrades\<close> is the length of \<^verbatim>\<open>profitArray\<close>.\<close>

definition variance :: "jsnum list \<Rightarrow> jsnum \<Rightarrow> jsnum" where
  "variance profits avg =
     (if 0 < length profits
      then foldl (\<lambda>acc val. acc + powTwo (val - avg)) (Fin 0) profits / ofNat (length profits)
      else Fin 0)"

text \<open>The bucket key of a trade, lines 348 to 357: empty when the close date is absent
  or empty, the re-ordered date when the part before the first space has three
  \<^verbatim>\<open>/\<close>-separated pieces, and that part unchanged otherwise.\<close>

definition dateStr :: "TradeRow \<Rightarrow> string" where
  "dateStr trade =
     (case closeDate trade of
        None \<Rightarrow> []
      | Some cd \<Rightarrow>
          if cd = [] then []
          else
            (let parts = split (CHR '' '') cd;
                 dateParts = split (CHR ''/'') (hd parts)
             in if length dateParts = 3
                then dateParts ! 2 @ ''-'' @ dateParts ! 1 @ ''-'' @ dateParts ! 0
                else hd parts))"

text \<open>One round of the loop of lines 347 to 361: a trade with an empty key is skipped.
  Line 359 reads the dictionary before it writes it, so under a name of the prototype the
  first read finds the inherited value and the bucket becomes a text.\<close>

definition addTrade :: "jsval object \<Rightarrow> TradeRow \<Rightarrow> jsval object" where
  "addTrade m trade =
     (let k = dateStr trade
      in if k \<noteq> []
         then setProp k (propOrZero (getProp m k) + NumV (Number (profitUSD trade))) m
         else m)"

definition dailyProfitMap :: "TradeRow list \<Rightarrow> jsval object" where
  "dailyProfitMap trades = foldl addTrade [] (validTrades trades)"

text \<open>Lines 363 to 367.\<close>

definition averageOf :: "jsval list \<Rightarrow> jsnum" where
  "averageOf dailyProfits =
     (if 0 < length dailyProfits
      then toNum (sumV dailyProfits) / ofNat (length dailyProfits)
      else Fin 0)"

text \<open>The loop of lines 381 to 388, with its two variables \<^verbatim>\<open>cumulative\<close> and
  \<^verbatim>\<open>previousBalance\<close> passed along.\<close>

fun walkDaily :: "jsnum \<Rightarrow> jsval \<Rightarrow> jsval \<Rightarrow> DailyData list \<Rightarrow> DailyData list" where
  "walkDaily initialBalance cumulative previousBalance [] = []"
| "walkDaily initialBalance cumulative previousBalance (item # items) =
     (let cumulative' = cumulative + DailyData.profit item;
          balance' = NumV initialBalance + cumulative';
          change = (if differsFromZero previousBalance
                    then NumV ((toNum (DailyData.profit item) / toNum previousBalance) * Fin 100)
                    else NumV (Fin 0))
      in item\<lparr>DailyData.cumulativeProfit := cumulative', DailyData.balance := balance',
              dailyPercentChange := change\<rparr>
         # walkDaily initialBalance cumulative' balance' items)"

text \<open>Lines 373 to 380: one entry per key of the map, sorted by the time of its date.\<close>

definition dailyEntries :: "(string \<Rightarrow> int option) \<Rightarrow> TradeRow list \<Rightarrow> DailyData list" where
  "dailyEntries dateParse trades =
     sortBy (\<lambda>a b. getTime dateParse (DailyData.date a) - getTime dateParse (DailyData.date b))
       (map (\<lambda>(k, v). \<lparr>DailyData.date = k, DailyData.profit = v,
                       DailyData.cumulativeProfit = NumV (Fin 0),
                       DailyData.balance = NumV (Fin 0), dailyPercentChange = NumV (Fin 0)\<rparr>)
          (objectEntries (dailyProfitMap trades)))"

definition computeDailyData ::
  "(string \<Rightarrow> int option) \<Rightarrow> TradeRow list \<Rightarrow> jsnum \<Rightarrow> DailyData list" where
  "computeDailyData dateParse trades initialBalance =
     walkDaily initialBalance (NumV (Fin 0)) (NumV initialBalance) (dailyEntries dateParse trades)"

text \<open>Lines 391 to 395; line 394 reads before it writes, as line 359 does.\<close>

definition addDay :: "jsval object \<Rightarrow> DailyData \<Rightarrow> jsval object" where
  "addDay m item =
     (let month = take 7 (DailyData.date item)
      in setProp month (propOrZero (getProp m month) + DailyData.profit item) m)"

definition monthlyProfitMap :: "DailyData list \<Rightarrow> jsval object" where
  "monthlyProfitMap days = foldl addDay [] days"

text \<open>Lines 403 to 418; an element of \<^verbatim>\<open>monthlyDataArray\<close> is the pair of its month and
  its profit.\<close>

fun walkMonthly :: "jsnum \<Rightarrow> jsval \<Rightarrow> jsval \<Rightarrow> (string \<times> jsval) list \<Rightarrow> MonthlyData list" where
  "walkMonthly initialBalance monthlyCumulative prevMonthlyBalance [] = []"
| "walkMonthly initialBalance monthlyCumulative prevMonthlyBalance (item # items) =
     (let monthlyCumulative' = monthlyCumulative + snd item;
          balance' = NumV initialBalance + monthlyCumulative';
          change = (if differsFromZero prevMonthlyBalance
                    then NumV ((toNum (snd item) / toNum prevMonthlyBalance) * Fin 100)
                    else NumV (Fin 0))
      in \<lparr>month = fst item, MonthlyData.profit = snd item,
          MonthlyData.cumulativeProfit = monthlyCumulative', MonthlyData.balance = balance',
          monthlyPercentChange = change\<rparr>
         # walkMonthly initialBalance monthlyCumulative' balance' items)"

text \<open>Lines 396 to 402; \<^verbatim>\<open>localeCompare\<close> is the engine's collation, a parameter.\<close>

definition monthlyDataArray ::
  "(string \<Rightarrow> string \<Rightarrow> int) \<Rightarrow> DailyData list \<Rightarrow> (string \<times> jsval) list" where
  "monthlyDataArray localeCompare days =
     sortBy (\<lambda>a b. ofInt (localeCompare (fst a) (fst b))) (objectEntries (monthlyProfitMap days))"

definition computeMonthlyData ::
  "(string \<Rightarrow> string \<Rightarrow> int) \<Rightarrow> DailyData list \<Rightarrow> jsnum \<Rightarrow> MonthlyData list" where
  "computeMonthlyData localeCompare days initialBalance =
     walkMonthly initialBalance (NumV (Fin 0)) (NumV initialBalance)
       (monthlyDataArray localeCompare days)"

definition computeStats ::
  "(string \<Rightarrow> int option) \<Rightarrow> (string \<Rightarrow> string \<Rightarrow> int) \<Rightarrow> TradeRow list \<Rightarrow> jsnum \<Rightarrow> Stats" where
  "computeStats dateParse localeCompare trades initialBalance =
     (let profits = profitArray trades;
          total = length (validTrades trades);
          profitable = length (filter (\<lambda>profit. gt profit (Fin 0)) profits);
          sumProfit = sumOf profits;
          avg = (if 0 < total then sumProfit / ofNat total else Fin 0);
          averageDaily = averageOf (objectValues (dailyProfitMap trades));
          days = computeDailyData dateParse trades initialBalance
      in \<lparr>totalTrades = total,
          profitableTrades = profitable,
          lossTrades = length (filter (\<lambda>profit. lt profit (Fin 0)) profits),
          breakEvenTrades = length (filter (\<lambda>profit. strictEq profit (Fin 0)) profits),
          winRate = (if 0 < total then (ofNat profitable / ofNat total) * Fin 100 else Fin 0),
          totalProfit = sumProfit,
          maxProfit = mathMax profits,
          minProfit = mathMin profits,
          avgProfit = avg,
          medianProfit = median profits,
          stdDev = mathSqrt (variance profits avg),
          averageDailyProfit = averageDaily,
          projectedAnnualIncome = averageDaily * Fin 365,
          dailyData = days,
          monthlyData = computeMonthlyData localeCompare days initialBalance,
          realizedEquityData = []\<rparr>)"

section \<open>\<^verbatim>\<open>handleFileUpload\<close>, lines 229 to 297\<close>

text \<open>
  The model starts from the two row lists \<^verbatim>\<open>tradesData\<close> and \<^verbatim>\<open>activityData\<close>, after
  the workbook has been read. \<^verbatim>\<open>parseDate\<close> and \<^verbatim>\<open>formatDate\<close> call
  \<^verbatim>\<open>rawDate.split\<close>, which throws on a \<^verbatim>\<open>Date\<close> that is no string; the
  \<^verbatim>\<open>catch\<close> of line 299 then reports \<^verbatim>\<open>Error processing file.\<close>
\<close>

datatype error = ErrorProcessingFile

definition isString :: "cell \<Rightarrow> bool" where
  "isString c = (case c of Str s \<Rightarrow> True | _ \<Rightarrow> False)"

definition rawDate :: "ActivityRow \<Rightarrow> string" where
  "rawDate row = (case Date row of Str s \<Rightarrow> s | _ \<Rightarrow> [])"

text \<open>Lines 231 to 233.\<close>

definition sortedActivity :: "(string \<Rightarrow> int option) \<Rightarrow> ActivityRow list \<Rightarrow> ActivityRow list" where
  "sortedActivity dateParse activityData =
     sortBy (\<lambda>a b. parseDate dateParse (rawDate a) - parseDate dateParse (rawDate b)) activityData"

text \<open>Line 235: \<^verbatim>\<open>sortedActivity[0]?.Balance ? Number(sortedActivity[0].Balance) : 0\<close>.\<close>

definition initialBalance :: "ActivityRow list \<Rightarrow> jsnum" where
  "initialBalance activity =
     (case activity of
        [] \<Rightarrow> Fin 0
      | first # _ \<Rightarrow> if truthy (Balance first) then Number (Balance first) else Fin 0)"

text \<open>Lines 237 to 240.\<close>

definition equityData :: "ActivityRow list \<Rightarrow> RealizedEquityData list" where
  "equityData activity =
     map (\<lambda>row. \<lparr>RealizedEquityData.date = formatDate (rawDate row),
                 realizedEquity = orZero (Number (RealizedEquity row))\<rparr>) activity"

text \<open>Lines 247 to 250: a later row of the same date overwrites the earlier one, and a
  row dated \<^verbatim>\<open>__proto__\<close> leaves no trace (see \<open>setProp\<close>).\<close>

definition dailyRealizedMap :: "RealizedEquityData list \<Rightarrow> jsnum object" where
  "dailyRealizedMap rows =
     foldl (\<lambda>m row. setProp (RealizedEquityData.date row) (realizedEquity row) m) [] rows"

text \<open>Lines 251 to 253.\<close>

definition sortedDates :: "(string \<Rightarrow> int option) \<Rightarrow> jsnum object \<Rightarrow> string list" where
  "sortedDates dateParse realized =
     sortBy (\<lambda>a b. getTime dateParse a - getTime dateParse b) (objectKeys realized)"

text \<open>The loops of lines 255 to 263 and 280 to 288, which differ in their names only:
  the first key gets \<^verbatim>\<open>0\<close>, every later key the change from the key before it. The key
  before (\<^verbatim>\<open>sorted[i - 1]\<close>) is passed along; \<open>None\<close> stands for \<^verbatim>\<open>i === 0\<close>.\<close>

fun percentLoop ::
  "jsnum object \<Rightarrow> string option \<Rightarrow> string list \<Rightarrow> jsnum object \<Rightarrow> jsnum object" where
  "percentLoop realized prevKey [] percentMap = percentMap"
| "percentLoop realized prevKey (k # ks) percentMap =
     percentLoop realized (Some k) ks
       (setProp k
          (case prevKey of
             None \<Rightarrow> Fin 0
           | Some b \<Rightarrow>
               (let prev = numProp realized b; curr = numProp realized k
                in if strictNe prev (Fin 0) then ((curr - prev) / prev) * Fin 100 else Fin 0))
          percentMap)"

definition dailyPercentMap :: "(string \<Rightarrow> int option) \<Rightarrow> jsnum object \<Rightarrow> jsnum object" where
  "dailyPercentMap dateParse realized =
     percentLoop realized None (sortedDates dateParse realized) []"

text \<open>Lines 265 to 270. The test \<^verbatim>\<open>dailyPercentMap[item.date] !== undefined\<close> holds for
  an own property (always a number) and for an inherited value alike, and the value read
  is what the bucket gets.\<close>

definition patchDaily :: "jsnum object \<Rightarrow> DailyData list \<Rightarrow> DailyData list" where
  "patchDaily percentMap days =
     map (\<lambda>item. case getProp percentMap (DailyData.date item) of
                   Own v \<Rightarrow> item\<lparr>dailyPercentChange := NumV v\<rparr>
                 | Proto \<Rightarrow> item\<lparr>dailyPercentChange := ProtoV\<rparr>
                 | Missing \<Rightarrow> item) days"

text \<open>Lines 273 to 278. The dates are keys of \<open>realized\<close>, so line 276 reads own
  properties.\<close>

definition monthlyRealizedMap :: "jsnum object \<Rightarrow> string list \<Rightarrow> jsnum object" where
  "monthlyRealizedMap realized dates =
     foldl (\<lambda>m d. setProp (take 7 d) (numProp realized d) m) [] dates"

definition monthlyPercentMap :: "jsnum object \<Rightarrow> jsnum object" where
  "monthlyPercentMap monthly = percentLoop monthly None (sortStrings (objectKeys monthly)) []"

text \<open>Lines 289 to 294, with the same test as line 266.\<close>

definition patchMonthly :: "jsnum object \<Rightarrow> MonthlyData list \<Rightarrow> MonthlyData list" where
  "patchMonthly percentMap months =
     map (\<lambda>item. case getProp percentMap (month item) of
                   Own v \<Rightarrow> item\<lparr>monthlyPercentChange := NumV v\<rparr>
                 | Proto \<Rightarrow> item\<lparr>monthlyPercentChange := ProtoV\<rparr>
                 | Missing \<Rightarrow> item) months"

definition handleFileUpload ::
  "(string \<Rightarrow> int option) \<Rightarrow> (string \<Rightarrow> string \<Rightarrow> int) \<Rightarrow> TradeRow list \<Rightarrow> ActivityRow list
     \<Rightarrow> error + Stats" where
  "handleFileUpload dateParse localeCompare tradesData activityData =
     (if \<not> list_all (\<lambda>row. isString (Date row)) activityData then Inl ErrorProcessingFile
      else
        (let activity = sortedActivity dateParse activityData;
             equity = equityData activity;
             computedStats = computeStats dateParse localeCompare tradesData (initialBalance activity);
             realized = dailyRealizedMap equity;
             monthly = monthlyRealizedMap realized (sortedDates dateParse realized)
         in Inr (computedStats
                  \<lparr>dailyData := patchDaily (dailyPercentMap dateParse realized) (dailyData computedStats),
                   monthlyData := patchMonthly (monthlyPercentMap monthly) (monthlyData computedStats),
                   realizedEquityData := equity\<rparr>)))"

section \<open>An engine for the worked examples\<close>

text \<open>
  A date parser to run the examples with: it reads \<^verbatim>\<open>YYYY-MM-DD\<close>, alone or followed
  by a space and \<^verbatim>\<open>HH:MM:SS\<close>, as a time in UTC, and nothing else. The day number is the
  usual count of days of the proleptic Gregorian calendar since 1970-01-01.
\<close>

definition daysFromCivil :: "int \<Rightarrow> int \<Rightarrow> int \<Rightarrow> int" where
  "daysFromCivil y m d =
     (let y' = (if m \<le> 2 then y - 1 else y);
          era = y' div 400;
          yoe = y' - era * 400;
          doy = (153 * ((m + 9) mod 12) + 2) div 5 + d - 1;
          doe = yoe * 365 + yoe div 4 - yoe div 100 + doy
      in era * 146097 + doe - 719468)"

definition fixedDigits :: "nat \<Rightarrow> string \<Rightarrow> int option" where
  "fixedDigits n s = (if length s = n then map_option int (digits 10 s) else None)"

definition timeOfDay :: "string \<Rightarrow> int option" where
  "timeOfDay s =
     (case map (fixedDigits 2) (split (CHR '':'') s) of
        [Some h, Some m, Some sec] \<Rightarrow>
          if h < 24 \<and> m < 60 \<and> sec < 60 then Some (((h * 60 + m) * 60 + sec) * 1000) else None
      | _ \<Rightarrow> None)"

definition civilDay :: "string \<Rightarrow> int option" where
  "civilDay s =
     (case split (CHR ''-'') s of
        [ys, ms, ds] \<Rightarrow>
          (case (fixedDigits 4 ys, fixedDigits 2 ms, fixedDigits 2 ds) of
             (Some y, Some m, Some d) \<Rightarrow>
               if 1 \<le> m \<and> m \<le> 12 \<and> 1 \<le> d \<and> d \<le> 31
               then Some (daysFromCivil y m d * 86400000) else None
           | _ \<Rightarrow> None)
      | _ \<Rightarrow> None)"

definition utcDateParse :: "string \<Rightarrow> int option" where
  "utcDateParse s =
     (case split (CHR '' '') s of
        [d] \<Rightarrow> civilDay d
      | [d, t] \<Rightarrow>
          (case (civilDay d, timeOfDay t) of (Some a, Some b) \<Rightarrow> Some (a + b) | _ \<Rightarrow> None)
      | _ \<Rightarrow> None)"

section \<open>The words of the specification, and its scenarios\<close>

text \<open>
  The specification calls a record valid when its profit field is present and numeric.
  Present: the column exists and the cell is not empty. Numeric: the cell is a number, or
  a text that reads as one. This definition follows those words, not the filter.
\<close>

definition presentAndNumeric :: "TradeRow \<Rightarrow> bool" where
  "presentAndNumeric trade =
     (case profitUSD trade of
        Undefined \<Rightarrow> False
      | Str s \<Rightarrow> s \<noteq> [] \<and> stringToNumber s \<noteq> NaN
      | Num n \<Rightarrow> n \<noteq> NaN)"

text \<open>Scenario A: three trades on two days.\<close>

definition scenarioA :: "TradeRow list" where
  "scenarioA =
     [\<lparr>profitUSD = Num (Fin 100), closeDate = Some ''01/01/2024 10:00:00''\<rparr>,
      \<lparr>profitUSD = Num (Fin (- 50)), closeDate = Some ''01/01/2024 12:00:00''\<rparr>,
      \<lparr>profitUSD = Num (Fin 20), closeDate = Some ''02/01/2024 09:00:00''\<rparr>]"

text \<open>Scenario B: a row with an empty profit cell between two valid rows.\<close>

definition scenarioB :: "TradeRow list" where
  "scenarioB =
     [\<lparr>profitUSD = Num (Fin 10), closeDate = Some ''01/01/2024 10:00:00''\<rparr>,
      \<lparr>profitUSD = Str [], closeDate = Some ''01/01/2024 11:00:00''\<rparr>,
      \<lparr>profitUSD = Num (Fin 5), closeDate = Some ''02/01/2024 09:00:00''\<rparr>]"



text \<open>The maps \<^verbatim>\<open>dailyRealizedMap\<close> and \<^verbatim>\<open>monthlyRealizedMap\<close> as \<^verbatim>\<open>handleFileUpload\<close>
  builds them from \<^verbatim>\<open>activityData\<close>.\<close>

definition realizedOf :: "(string \<Rightarrow> int option) \<Rightarrow> ActivityRow list \<Rightarrow> jsnum object" where
  "realizedOf dateParse activityData =
     dailyRealizedMap (equityData (sortedActivity dateParse activityData))"

definition monthlyOf :: "(string \<Rightarrow> int option) \<Rightarrow> ActivityRow list \<Rightarrow> jsnum object" where
  "monthlyOf dateParse activityData =
     monthlyRealizedMap (realizedOf dateParse activityData)
       (sortedDates dateParse (realizedOf dateParse activityData))"



text \<open>An equity sheet that covers the second day of scenario A only.\<close>

definition secondDayOnly :: "ActivityRow list" where
  "secondDayOnly =
     [\<lparr>Date = Str ''02/01/2024 00:00:00'', Balance = Num (Fin 1000),
       RealizedEquity = Num (Fin 1100)\<rparr>]"

text \<open>A value that is a number, as the interfaces declare it. A finite number: neither
  \<^verbatim>\<open>NaN\<close> nor an infinity; a finite value is such a number. The magnitude of a finite number is its absolute value (\<open>0\<close> stands in for the
  other numbers).\<close>

definition isFinite :: "jsnum \<Rightarrow> bool" where
  "isFinite a = (case a of Fin r \<Rightarrow> True | _ \<Rightarrow> False)"

definition isNumber :: "jsval \<Rightarrow> bool" where
  "isNumber v = (case v of NumV a \<Rightarrow> True | _ \<Rightarrow> False)"

definition finiteValue :: "jsval \<Rightarrow> bool" where
  "finiteValue v = (case v of NumV a \<Rightarrow> isFinite a | _ \<Rightarrow> False)"

definition magnitude :: "jsnum \<Rightarrow> real" where
  "magnitude a = (case a of Fin r \<Rightarrow> \<bar>r\<bar> | _ \<Rightarrow> 0)"






definition noCloseDate :: "TradeRow list" where
  "noCloseDate = [\<lparr>profitUSD = Num (Fin 5), closeDate = Some []\<rparr>]"

text \<open>A trade whose close date is the name of a function of \<^verbatim>\<open>Object.prototype\<close>.\<close>

definition inheritedCloseDate :: "TradeRow list" where
  "inheritedCloseDate = [\<lparr>profitUSD = Num (Fin 5), closeDate = Some ''toString''\<rparr>]"

text \<open>Three trades of one day whose profit cells hold the texts \<^verbatim>\<open>Infinity\<close>,
  \<^verbatim>\<open>-Infinity\<close> and \<^verbatim>\<open>5\<close>.\<close>

definition infiniteProfits :: "TradeRow list" where
  "infiniteProfits =
     [\<lparr>profitUSD = Str ''Infinity'', closeDate = Some ''01/01/2024''\<rparr>,
      \<lparr>profitUSD = Str ''-Infinity'', closeDate = Some ''01/01/2024''\<rparr>,
      \<lparr>profitUSD = Str ''5'', closeDate = Some ''01/01/2024''\<rparr>]"

section \<open>The fields of the result\<close>

lemma totalTrades_computeStats:
  "totalTrades (computeStats dp lc trades ib) = length (validTrades trades)"
  by (simp add: computeStats_def Let_def)

lemma profitableTrades_computeStats:
  "profitableTrades (computeStats dp lc trades ib) =
     length (filter (\<lambda>p. gt p (Fin 0)) (profitArray trades))"
  by (simp add: computeStats_def Let_def)

lemma lossTrades_computeStats:
  "lossTrades (computeStats dp lc trades ib) =
     length (filter (\<lambda>p. lt p (Fin 0)) (profitArray trades))"
  by (simp add: computeStats_def Let_def)

lemma breakEvenTrades_computeStats:
  "breakEvenTrades (computeStats dp lc trades ib) =
     length (filter (\<lambda>p. strictEq p (Fin 0)) (profitArray trades))"
  by (simp add: computeStats_def Let_def)

lemma totalProfit_computeStats:
  "totalProfit (computeStats dp lc trades ib) = sumOf (profitArray trades)"
  by (simp add: computeStats_def Let_def)

lemma dailyData_computeStats:
  "dailyData (computeStats dp lc trades ib) = computeDailyData dp trades ib"
  by (simp add: computeStats_def Let_def)

lemma monthlyData_computeStats:
  "monthlyData (computeStats dp lc trades ib) =
     computeMonthlyData lc (computeDailyData dp trades ib) ib"
  by (simp add: computeStats_def Let_def)

section \<open>Counting the trades\<close>

lemma sign_cases:
  "p \<noteq> NaN \<Longrightarrow>
     (if gt p (Fin 0) then 1 else 0) + (if lt p (Fin 0) then 1 else 0)
       + (if strictEq p (Fin 0) then 1 else 0) = (1::nat)"
  by (cases p) (auto simp: gt_def strictEq_def)

lemma count_signs:
  "NaN \<notin> set ps \<Longrightarrow>
     length (filter (\<lambda>p. gt p (Fin 0)) ps) + length (filter (\<lambda>p. lt p (Fin 0)) ps)
       + length (filter (\<lambda>p. strictEq p (Fin 0)) ps) = length ps"
proof (induction ps)
  case Nil
  then show ?case by simp
next
  case (Cons p ps)
  then have "p \<noteq> NaN" and "NaN \<notin> set ps" by auto
  with Cons.IH sign_cases [of p] show ?case
    by (simp split: if_splits)
qed

lemma profitArray_numeric: "NaN \<notin> set (profitArray trades)"
  by (auto simp: profitArray_def validTrades_def isValid_def isNaN_def)

lemma isValid_iff_presentAndNumeric: "isValid trade = presentAndNumeric trade"
  by (cases "profitUSD trade") (auto simp: isValid_def presentAndNumeric_def isNaN_def)

text \<open>
  Claim C8. For every list of trade rows, the counts of profitable, losing and break-even
  trades add up to \<^verbatim>\<open>totalTrades\<close>, and \<^verbatim>\<open>totalTrades\<close> is the number of input rows
  whose \<^verbatim>\<open>Profit(USD)\<close> field is present and numeric.
\<close>

theorem counts_partition_total:
  "profitableTrades (computeStats dp lc trades ib) + lossTrades (computeStats dp lc trades ib)
     + breakEvenTrades (computeStats dp lc trades ib) = totalTrades (computeStats dp lc trades ib)
   \<and> totalTrades (computeStats dp lc trades ib) = length (filter presentAndNumeric trades)"
proof
  show "profitableTrades (computeStats dp lc trades ib) + lossTrades (computeStats dp lc trades ib)
     + breakEvenTrades (computeStats dp lc trades ib) = totalTrades (computeStats dp lc trades ib)"
    using count_signs [OF profitArray_numeric, of trades]
    by (simp add: totalTrades_computeStats profitableTrades_computeStats lossTrades_computeStats
        breakEvenTrades_computeStats profitArray_def)
next
  have "filter isValid trades = filter presentAndNumeric trades"
    by (rule filter_cong) (simp_all add: isValid_iff_presentAndNumeric)
  then show "totalTrades (computeStats dp lc trades ib) = length (filter presentAndNumeric trades)"
    by (simp add: totalTrades_computeStats validTrades_def)
qed

text \<open>Scenario B: the row with the empty profit cell is not counted.\<close>

theorem counts_partition_total_witness:
  "totalTrades (computeStats utcDateParse compareCodeUnits scenarioB (Fin 0)) = 2
   \<and> profitableTrades (computeStats utcDateParse compareCodeUnits scenarioB (Fin 0))
       + lossTrades (computeStats utcDateParse compareCodeUnits scenarioB (Fin 0))
       + breakEvenTrades (computeStats utcDateParse compareCodeUnits scenarioB (Fin 0)) = 2"
  using counts_partition_total [of utcDateParse compareCodeUnits scenarioB "Fin 0"]
  by (simp add: scenarioB_def presentAndNumeric_def)

section \<open>Rows that the filter drops\<close>

lemma validTrades_append_invalid:
  "\<not> isValid r \<Longrightarrow> validTrades (trades @ [r]) = validTrades trades"
  by (simp add: validTrades_def)

lemma profitArray_append_invalid:
  "\<not> isValid r \<Longrightarrow> profitArray (trades @ [r]) = profitArray trades"
  by (simp add: profitArray_def validTrades_append_invalid)

lemma dailyProfitMap_append_invalid:
  "\<not> isValid r \<Longrightarrow> dailyProfitMap (trades @ [r]) = dailyProfitMap trades"
  by (simp add: dailyProfitMap_def validTrades_append_invalid)

lemma computeDailyData_append_invalid:
  "\<not> isValid r \<Longrightarrow> computeDailyData dp (trades @ [r]) ib = computeDailyData dp trades ib"
  by (simp add: computeDailyData_def dailyEntries_def dailyProfitMap_append_invalid)

text \<open>
  Claim C9. For every list of trade rows and every initial balance, appending one row
  whose \<^verbatim>\<open>Profit(USD)\<close> field is the empty string or is not numeric gives a
  \<^verbatim>\<open>Stats\<close> value equal in every field to the one computed without that row.
\<close>

theorem invalid_row_changes_nothing:
  assumes "profitUSD r = Str [] \<or> isNaN (Number (profitUSD r))"
  shows "computeStats dp lc (trades @ [r]) ib = computeStats dp lc trades ib"
proof -
  from assms have "\<not> isValid r"
    by (auto simp: isValid_def)
  then show ?thesis
    by (simp add: computeStats_def validTrades_append_invalid profitArray_append_invalid
        dailyProfitMap_append_invalid computeDailyData_append_invalid)
qed

text \<open>Scenario A with a fourth row whose profit cell holds the text \<^verbatim>\<open>n/a\<close>.\<close>

theorem invalid_row_changes_nothing_witness:
  "computeStats utcDateParse compareCodeUnits
     (scenarioA @ [\<lparr>profitUSD = Str ''n/a'', closeDate = Some ''03/01/2024 09:00:00''\<rparr>]) (Fin 1000)
   = computeStats utcDateParse compareCodeUnits scenarioA (Fin 1000)"
proof -
  have "stringToNumber ''n/a'' = NaN"
    by (simp add: stringToNumber_def trim_def isWhiteSpace_def nonDecimal_def unsignedDecimal_def
        isExpChar_def mantissa_def digits_def digitTable_def)
  then have "isNaN (Number (profitUSD \<lparr>profitUSD = Str ''n/a'', closeDate = Some ''03/01/2024 09:00:00''\<rparr>))"
    by (simp add: isNaN_def)
  then show ?thesis
    using invalid_row_changes_nothing [of "\<lparr>profitUSD = Str ''n/a'', closeDate = Some ''03/01/2024 09:00:00''\<rparr>"
        utcDateParse compareCodeUnits scenarioA "Fin 1000"]
    by simp
qed

section \<open>Profit cells of white space\<close>

lemma trim_white: "list_all isWhiteSpace s \<Longrightarrow> trim s = []"
  by (auto simp: trim_def list_all_iff dest: set_dropWhileD)

lemma Number_white: "list_all isWhiteSpace s \<Longrightarrow> Number (Str s) = Fin 0"
  by (simp add: stringToNumber_def trim_white)

lemma sumOf_snoc_zero: "sumOf (xs @ [Fin 0]) = sumOf xs"
proof -
  have "sumOf xs + Fin 0 = sumOf xs"
    using add_0_right [of "sumOf xs"] by (simp add: zero_jsnum_def)
  then show ?thesis by (simp add: sumOf_def)
qed

text \<open>
  Claim C10. A trade row whose \<^verbatim>\<open>Profit(USD)\<close> field is a string of white space only
  passes the validity filter and is counted as a break-even trade of profit \<^verbatim>\<open>0\<close>: the
  filter rejects only the empty string and the values whose conversion is \<^verbatim>\<open>NaN\<close>, and
  the conversion of such a string is \<^verbatim>\<open>0\<close>.
\<close>

theorem white_space_profit_is_break_even:
  assumes "s \<noteq> []" and "list_all isWhiteSpace s"
  shows "Number (Str s) = Fin 0
    \<and> isValid \<lparr>profitUSD = Str s, closeDate = cd\<rparr>
    \<and> (\<not> isValid t) = (profitUSD t = Str [] \<or> Number (profitUSD t) = NaN)
    \<and> totalTrades (computeStats dp lc (trades @ [\<lparr>profitUSD = Str s, closeDate = cd\<rparr>]) ib)
        = totalTrades (computeStats dp lc trades ib) + 1
    \<and> breakEvenTrades (computeStats dp lc (trades @ [\<lparr>profitUSD = Str s, closeDate = cd\<rparr>]) ib)
        = breakEvenTrades (computeStats dp lc trades ib) + 1
    \<and> profitableTrades (computeStats dp lc (trades @ [\<lparr>profitUSD = Str s, closeDate = cd\<rparr>]) ib)
        = profitableTrades (computeStats dp lc trades ib)
    \<and> lossTrades (computeStats dp lc (trades @ [\<lparr>profitUSD = Str s, closeDate = cd\<rparr>]) ib)
        = lossTrades (computeStats dp lc trades ib)
    \<and> totalProfit (computeStats dp lc (trades @ [\<lparr>profitUSD = Str s, closeDate = cd\<rparr>]) ib)
        = totalProfit (computeStats dp lc trades ib)"
proof -
  have zero: "Number (Str s) = Fin 0"
    using assms(2) by (rule Number_white)
  have valid: "isValid \<lparr>profitUSD = Str s, closeDate = cd\<rparr>"
    using assms(1) zero by (simp add: isValid_def isNaN_def)
  have profits: "profitArray (trades @ [\<lparr>profitUSD = Str s, closeDate = cd\<rparr>])
      = profitArray trades @ [Fin 0]"
    using valid zero by (simp add: profitArray_def validTrades_def)
  have rejects: "(\<not> isValid t) = (profitUSD t = Str [] \<or> Number (profitUSD t) = NaN)"
    by (auto simp: isValid_def isNaN_def)
  show ?thesis
    using zero valid rejects
    by (simp add: totalTrades_computeStats breakEvenTrades_computeStats
        profitableTrades_computeStats lossTrades_computeStats totalProfit_computeStats
        profits validTrades_def sumOf_snoc_zero gt_def strictEq_def)
qed

text \<open>A profit cell holding a single space.\<close>

theorem white_space_profit_is_break_even_witness:
  "Number (Str '' '') = Fin 0
   \<and> isValid \<lparr>profitUSD = Str '' '', closeDate = Some ''01/01/2024''\<rparr>
   \<and> totalTrades (computeStats utcDateParse compareCodeUnits
        ([] @ [\<lparr>profitUSD = Str '' '', closeDate = Some ''01/01/2024''\<rparr>]) (Fin 0)) = 1
   \<and> breakEvenTrades (computeStats utcDateParse compareCodeUnits
        ([] @ [\<lparr>profitUSD = Str '' '', closeDate = Some ''01/01/2024''\<rparr>]) (Fin 0)) = 1"
proof -
  have white: "list_all isWhiteSpace '' ''"
    by (simp add: isWhiteSpace_def)
  have none: "totalTrades (computeStats utcDateParse compareCodeUnits [] (Fin 0)) = 0
      \<and> breakEvenTrades (computeStats utcDateParse compareCodeUnits [] (Fin 0)) = 0"
    by (simp add: totalTrades_computeStats breakEvenTrades_computeStats validTrades_def
        profitArray_def)
  show ?thesis
    using white_space_profit_is_break_even [of "'' ''" "Some ''01/01/2024''"
        "\<lparr>profitUSD = Str '' '', closeDate = Some ''01/01/2024''\<rparr>" utcDateParse
        compareCodeUnits "[]" "Fin 0"] white none
    by simp
qed

section \<open>Empty input\<close>

lemma computeStats_empty:
  "computeStats dp lc [] ib =
     \<lparr>totalTrades = 0, profitableTrades = 0, lossTrades = 0, breakEvenTrades = 0,
      winRate = Fin 0, totalProfit = Fin 0, maxProfit = NegInf, minProfit = PosInf,
      avgProfit = Fin 0, medianProfit = Fin 0, stdDev = Fin 0, averageDailyProfit = Fin 0,
      projectedAnnualIncome = Fin 0, dailyData = [], monthlyData = [],
      realizedEquityData = []\<rparr>"
  by (simp add: computeStats_def validTrades_def profitArray_def sumOf_def mathMax_def
      mathMin_def median_def sortBy_def variance_def dailyProfitMap_def objectValues_def
      objectEntries_def averageOf_def computeDailyData_def dailyEntries_def
      computeMonthlyData_def monthlyDataArray_def monthlyProfitMap_def Let_def)

text \<open>
  Claim C3. On empty input (no trade row, no equity row) the claim asks for a
  \<^verbatim>\<open>Stats\<close> whose counts and sums are all zero, \<^verbatim>\<open>maxProfit\<close> and \<^verbatim>\<open>minProfit\<close>
  included, with empty series. The code returns this value: every count, sum and series
  is as claimed and nothing is divided by zero, but \<^verbatim>\<open>Math.max()\<close> and \<^verbatim>\<open>Math.min()\<close>
  of no argument give \<^verbatim>\<open>-Infinity\<close> and \<^verbatim>\<open>Infinity\<close>, not zero.
\<close>

theorem empty_input_extremes:
  "handleFileUpload dp lc [] [] =
     Inr \<lparr>totalTrades = 0, profitableTrades = 0, lossTrades = 0, breakEvenTrades = 0,
          winRate = Fin 0, totalProfit = Fin 0, maxProfit = NegInf, minProfit = PosInf,
          avgProfit = Fin 0, medianProfit = Fin 0, stdDev = Fin 0, averageDailyProfit = Fin 0,
          projectedAnnualIncome = Fin 0, dailyData = [], monthlyData = [],
          realizedEquityData = []\<rparr>"
  by (simp add: handleFileUpload_def sortedActivity_def sortBy_def initialBalance_def
      equityData_def computeStats_empty patchDaily_def patchMonthly_def)

section \<open>The initial balance\<close>

text \<open>
  Claim C4. The claim asks for an initial balance equal to the \<^verbatim>\<open>Balance\<close> field of the
  first snapshot, and of zero when there is no snapshot or when that field is missing or
  not numeric. With no snapshot and with a missing or empty \<^verbatim>\<open>Balance\<close> the code gives
  zero. A \<^verbatim>\<open>Balance\<close> cell holding a text that is no number is truthy, so line 235
  converts it and passes \<^verbatim>\<open>NaN\<close> on.
\<close>

theorem initial_balance_of_text:
  "initialBalance (sortedActivity dp
     [\<lparr>Date = Str ''01/01/2024 00:00:00'', Balance = Str ''abc'',
       RealizedEquity = Num (Fin 1000)\<rparr>]) = NaN
   \<and> initialBalance (sortedActivity dp []) = Fin 0
   \<and> initialBalance (sortedActivity dp [\<lparr>Date = d, Balance = Undefined, RealizedEquity = e\<rparr>])
       = Fin 0
   \<and> initialBalance (sortedActivity dp [\<lparr>Date = d, Balance = Str [], RealizedEquity = e\<rparr>])
       = Fin 0"
proof -
  have "stringToNumber ''abc'' = NaN"
    by (simp add: stringToNumber_def trim_def isWhiteSpace_def nonDecimal_def unsignedDecimal_def
        isExpChar_def mantissa_def digits_def digitTable_def)
  then show ?thesis
    by (simp add: initialBalance_def sortedActivity_def sortBy_def)
qed

section \<open>Sorting rearranges\<close>

lemma mset_insertBy: "mset (insertBy cmp x ys) = add_mset x (mset ys)"
  by (induction ys) auto

lemma mset_sortBy: "mset (sortBy cmp xs) = mset xs"
  by (induction xs) (auto simp: sortBy_def mset_insertBy)


lemma mset_map_sortBy: "mset (map f (sortBy cmp xs)) = mset (map f xs)"
  using mset_sortBy [of cmp xs] by (metis mset_map)






section \<open>The range of the conversion\<close>

lemma conversion_keeps_range:
  "Number (Str ''1e400'') = PosInf" "Number (Str ''1e-400'') = Fin 0"
  by (simp_all add: stringToNumber_def trim_def isWhiteSpace_def nonDecimal_def
      unsignedDecimal_def isExpChar_def mantissa_def exponent_def digits_def digitTable_def
      scale_def roundRange_def)

section \<open>Objects\<close>


lemma keys_setProp:
  "fst ` set (setProp k v obj)
     = (if k = ''__proto__'' then fst ` set obj else insert k (fst ` set obj))"
  by (simp add: setProp_def dom_update)



lemma mset_objectEntries: "mset (objectEntries obj) = mset obj"
  by (simp add: objectEntries_def)




section \<open>The percent loop\<close>



lemma strictNe_zero: "strictNe a (Fin 0) = (a \<noteq> Fin 0)"
  by (auto simp: strictNe_def strictEq_def)


section \<open>The equity of each day\<close>














lemma not_index_2024_01_01: "arrayIndex ''2024-01-01'' = None"
  by (simp add: arrayIndex_def digits_def digitTable_def)

lemma not_index_2024_01_02: "arrayIndex ''2024-01-02'' = None"
  by (simp add: arrayIndex_def digits_def digitTable_def)

lemma time_2024_01_01: "utcDateParse ''2024-01-01'' = Some 1704067200000"
  by (simp add: utcDateParse_def civilDay_def fixedDigits_def digits_def digitTable_def
      daysFromCivil_def)

lemma time_2024_01_02: "utcDateParse ''2024-01-02'' = Some 1704153600000"
  by (simp add: utcDateParse_def civilDay_def fixedDigits_def digits_def digitTable_def
      daysFromCivil_def)







section \<open>Days that are no dates\<close>







section \<open>The walk over the daily buckets\<close>

lemma zero_plus: "Fin 0 + a = a"
  using add_0_left [of a] by (simp add: zero_jsnum_def)



lemma dates_walkDaily: "map DailyData.date (walkDaily ib c p xs) = map DailyData.date xs"
  by (induction xs arbitrary: c p) (simp_all add: Let_def)

lemma profits_walkDaily: "map DailyData.profit (walkDaily ib c p xs) = map DailyData.profit xs"
  by (induction xs arbitrary: c p) (simp_all add: Let_def)


section \<open>The keys of the daily map\<close>

lemma inherited_proto: "inherited ''__proto__''"
  by (simp add: inherited_def prototypeNames_def)

lemma keys_addTrade:
  "fst ` set (addTrade m t)
     = fst ` set m \<union> (if dateStr t = [] \<or> dateStr t = ''__proto__'' then {} else {dateStr t})"
  by (auto simp: addTrade_def Let_def keys_setProp)

lemma keys_foldl_addTrade:
  "fst ` set (foldl addTrade m ts)
     = fst ` set m \<union> {dateStr t |t. t \<in> set ts \<and> dateStr t \<noteq> [] \<and> dateStr t \<noteq> ''__proto__''}"
proof (induction ts arbitrary: m)
  case Nil
  then show ?case by simp
next
  case (Cons t ts)
  show ?case
    unfolding foldl_Cons Cons.IH keys_addTrade by auto
qed

lemma keys_dailyProfitMap:
  "fst ` set (dailyProfitMap trades)
     = {dateStr t |t. t \<in> set trades \<and> isValid t \<and> dateStr t \<noteq> [] \<and> dateStr t \<noteq> ''__proto__''}"
  by (auto simp: dailyProfitMap_def validTrades_def keys_foldl_addTrade)



lemma dates_dailyEntries_mset:
  "mset (map DailyData.date (dailyEntries dp trades)) = mset (map fst (dailyProfitMap trades))"
proof -
  have "mset (map DailyData.date (dailyEntries dp trades))
      = mset (map DailyData.date (map (\<lambda>(k, v). \<lparr>DailyData.date = k, DailyData.profit = v,
                       DailyData.cumulativeProfit = NumV (Fin 0),
                       DailyData.balance = NumV (Fin 0), dailyPercentChange = NumV (Fin 0)\<rparr>)
                  (objectEntries (dailyProfitMap trades))))"
    unfolding dailyEntries_def by (rule mset_map_sortBy)
  also have "\<dots> = mset (map fst (objectEntries (dailyProfitMap trades)))"
    by (simp add: case_prod_unfold comp_def)
  also have "\<dots> = mset (map fst (dailyProfitMap trades))"
    using mset_objectEntries [of "dailyProfitMap trades"] by (metis mset_map)
  finally show ?thesis .
qed

lemma dates_computeDailyData:
  "map DailyData.date (computeDailyData dp trades ib) = map DailyData.date (dailyEntries dp trades)"
  by (simp add: computeDailyData_def dates_walkDaily)


lemma set_dates:
  "set (map DailyData.date (computeDailyData dp trades ib))
     = {dateStr t |t. t \<in> set trades \<and> isValid t \<and> dateStr t \<noteq> [] \<and> dateStr t \<noteq> ''__proto__''}"
proof -
  have "set (map DailyData.date (computeDailyData dp trades ib))
      = set (map fst (dailyProfitMap trades))"
    using dates_dailyEntries_mset [of dp trades]
    by (metis dates_computeDailyData set_mset_mset)
  then show ?thesis
    by (simp add: keys_dailyProfitMap)
qed




section \<open>What a bucket holds\<close>

lemma isFinite_plus: "isFinite a \<Longrightarrow> isFinite b \<Longrightarrow> isFinite (a + b)"
  by (cases a; cases b) (simp_all add: isFinite_def)

lemma orZero_finite: "isFinite v \<Longrightarrow> orZero v = v"
  by (cases v) (auto simp: isFinite_def orZero_def truthyNum_def)

lemma finiteValue_NumV: "finiteValue (NumV a) = isFinite a"
  by (simp add: finiteValue_def)

lemma finiteValue_plus: "finiteValue a \<Longrightarrow> finiteValue b \<Longrightarrow> finiteValue (a + b)"
  by (cases a; cases b) (simp_all add: finiteValue_def isFinite_plus)

lemma orZeroV_finite: "finiteValue v \<Longrightarrow> orZeroV v = v"
  by (cases v) (simp_all add: finiteValue_def orZero_finite)

lemma finiteValue_zero: "finiteValue (NumV (Fin 0))"
  by (simp add: finiteValue_def isFinite_def)

lemma getProp_not_Proto: "\<not> inherited k \<Longrightarrow> getProp m k \<noteq> Proto"
  by (simp add: getProp_def split: option.splits)

lemma propOrZero_finite:
  assumes "\<not> inherited k" and "\<And>v. getProp m k = Own v \<Longrightarrow> finiteValue v"
  shows "finiteValue (propOrZero (getProp m k))"
proof (cases "getProp m k")
  case Missing
  then show ?thesis by (simp add: propOrZero_def finiteValue_zero)
next
  case (Own v)
  with assms(2) have "finiteValue v" by simp
  with Own show ?thesis by (simp add: propOrZero_def orZeroV_finite)
next
  case Proto
  with assms(1) show ?thesis by (simp add: getProp_not_Proto)
qed









section \<open>Buckets of numbers\<close>



lemma set_setProp: "set (setProp k v m) \<subseteq> insert (k, v) (set m)"
proof (cases "k = ''__proto__''")
  case True
  then show ?thesis by (auto simp: setProp_def)
next
  case False
  have "set (AList.update k v m) \<subseteq> insert (k, v) (set m)"
    by (induction m) auto
  with False show ?thesis by (simp add: setProp_def)
qed

lemma all_setProp:
  assumes "\<forall>v\<in>snd ` set m. P v" and "P v'"
  shows "\<forall>v\<in>snd ` set (setProp k v' m). P v"
proof
  fix v assume "v \<in> snd ` set (setProp k v' m)"
  then obtain e where "e \<in> set (setProp k v' m)" and "v = snd e" by blast
  with set_setProp [of k v' m] have "e = (k, v') \<or> e \<in> set m" by blast
  with assms \<open>v = snd e\<close> show "P v" by auto
qed









section \<open>Scenario A, evaluated\<close>

lemma plain_days:
  "\<not> inherited ''2024-01-01''" "\<not> inherited ''2024-01-02''" "\<not> inherited ''2024-01''"
  "\<not> inherited ''unknown''" "\<not> inherited ''2024-01-05''"
  by (simp_all add: inherited_def prototypeNames_def)

lemma scenarioA_map:
  "dailyProfitMap scenarioA = [(''2024-01-01'', NumV (Fin 50)), (''2024-01-02'', NumV (Fin 20))]"
  by (simp add: scenarioA_def dailyProfitMap_def validTrades_def isValid_def isNaN_def
      addTrade_def dateStr_def Let_def setProp_def getProp_def plain_days propOrZero_def
      orZero_def truthyNum_def)

lemma scenarioA_days:
  "computeDailyData utcDateParse scenarioA (Fin 1000) =
     [\<lparr>DailyData.date = ''2024-01-01'', DailyData.profit = NumV (Fin 50),
       DailyData.cumulativeProfit = NumV (Fin 50), DailyData.balance = NumV (Fin 1050),
       dailyPercentChange = NumV (Fin 5)\<rparr>,
      \<lparr>DailyData.date = ''2024-01-02'', DailyData.profit = NumV (Fin 20),
       DailyData.cumulativeProfit = NumV (Fin 70), DailyData.balance = NumV (Fin 1070),
       dailyPercentChange = NumV (Fin (40 / 21))\<rparr>]"
  by (simp add: computeDailyData_def dailyEntries_def scenarioA_map objectEntries_def
      not_index_2024_01_01 not_index_2024_01_02 sortBy_def getTime_def time_2024_01_01
      time_2024_01_02 ofInt_def minus_jsnum_def gt_def strictNe_zero Let_def)

lemma not_index_2024_01: "arrayIndex ''2024-01'' = None"
  by (simp add: arrayIndex_def digits_def digitTable_def)

lemma scenarioA_months:
  "computeMonthlyData lc (computeDailyData utcDateParse scenarioA (Fin 1000)) (Fin 1000) =
     [\<lparr>month = ''2024-01'', MonthlyData.profit = NumV (Fin 70),
       MonthlyData.cumulativeProfit = NumV (Fin 70), MonthlyData.balance = NumV (Fin 1070),
       monthlyPercentChange = NumV (Fin 7)\<rparr>]"
  by (simp add: scenarioA_days computeMonthlyData_def monthlyDataArray_def monthlyProfitMap_def
      addDay_def Let_def setProp_def getProp_def plain_days propOrZero_def orZero_def
      truthyNum_def objectEntries_def not_index_2024_01 sortBy_def strictNe_zero)

lemma scenarioA_count: "validTrades scenarioA = scenarioA"
  by (simp add: scenarioA_def validTrades_def isValid_def isNaN_def)

lemma scenarioA_total:
  "totalTrades (computeStats utcDateParse compareCodeUnits scenarioA (Fin 1000)) = 3
   \<and> totalProfit (computeStats utcDateParse compareCodeUnits scenarioA (Fin 1000)) = Fin 70"
  by (simp add: totalTrades_computeStats totalProfit_computeStats profitArray_def
      scenarioA_count sumOf_def)
     (simp add: scenarioA_def)

section \<open>The daily series\<close>






lemma infinite_texts:
  "stringToNumber ''Infinity'' = PosInf" "stringToNumber ''-Infinity'' = NegInf"
  by (simp_all add: stringToNumber_def trim_def isWhiteSpace_def nonDecimal_def
      unsignedDecimal_def isExpChar_def mantissa_def digits_def digitTable_def)

lemma roundRange_five: "roundRange 5 = Fin 5"
  by (simp add: roundRange_def)

lemma text_five: "stringToNumber ''5'' = Fin 5"
  by (simp add: stringToNumber_def trim_def isWhiteSpace_def nonDecimal_def
      unsignedDecimal_def isExpChar_def mantissa_def digits_def digitTable_def roundRange_five)

lemma infiniteProfits_valid: "validTrades infiniteProfits = infiniteProfits"
  by (simp add: infiniteProfits_def validTrades_def isValid_def isNaN_def infinite_texts text_five)

lemma infiniteProfits_map: "dailyProfitMap infiniteProfits = [(''2024-01-01'', NumV (Fin 5))]"
  unfolding dailyProfitMap_def infiniteProfits_valid
  by (simp add: infiniteProfits_def addTrade_def dateStr_def Let_def setProp_def getProp_def
      plain_days propOrZero_def orZero_def truthyNum_def infinite_texts text_five)

lemma infiniteProfits_total: "sumOf (profitArray infiniteProfits) = NaN"
  unfolding profitArray_def infiniteProfits_valid
  by (simp add: infiniteProfits_def sumOf_def infinite_texts text_five)


lemma infiniteProfits_days:
  "map DailyData.profit (computeDailyData utcDateParse infiniteProfits (Fin 0)) = [NumV (Fin 5)]"
  by (simp add: computeDailyData_def dailyEntries_def infiniteProfits_map objectEntries_def
      not_index_2024_01_01 sortBy_def Let_def)


section \<open>The monthly series\<close>






lemma profits_walkMonthly: "map MonthlyData.profit (walkMonthly ib c p xs) = map snd xs"
  by (induction xs arbitrary: c p) (simp_all add: Let_def)


lemma mset_monthlyDataArray: "mset (monthlyDataArray lc days) = mset (monthlyProfitMap days)"
  by (simp add: monthlyDataArray_def mset_sortBy mset_objectEntries)





section \<open>Which trades are bucketed\<close>
























section \<open>The sums of the bucket profits\<close>

lemma foldl_plus: "foldl (\<lambda>acc val. acc + val) a xs = a + sum_list xs"
  for a :: jsnum
  by (induction xs arbitrary: a) (simp_all add: add.assoc)

lemma sumOf_sum_list: "sumOf xs = sum_list xs"
  by (simp add: sumOf_def foldl_plus zero_plus)

lemma finite_number: "finiteValue v \<Longrightarrow> isNumber v"
  by (cases v) (simp_all add: finiteValue_def isNumber_def)

lemma foldl_numbers:
  "\<forall>v\<in>set vs. isNumber v \<Longrightarrow>
     foldl (\<lambda>acc val. acc + val) (NumV a) vs = NumV (a + sum_list (map toNum vs))"
proof (induction vs arbitrary: a)
  case Nil
  then show ?case
    using add_0_right [of a] by simp
next
  case (Cons v vs)
  then obtain b where v: "v = NumV b"
    by (cases v) (simp_all add: isNumber_def)
  have "\<forall>v\<in>set vs. isNumber v" using Cons.prems by simp
  then have "foldl (\<lambda>acc val. acc + val) (NumV (a + b)) vs
      = NumV (a + b + sum_list (map toNum vs))"
    by (rule Cons.IH)
  with v show ?case by (simp add: add.assoc)
qed

lemma sumV_numbers: "\<forall>v\<in>set vs. isNumber v \<Longrightarrow> sumV vs = NumV (sum_list (map toNum vs))"
  by (simp add: sumV_def foldl_numbers zero_plus)

lemma toNum_plus: "finiteValue a \<Longrightarrow> finiteValue b \<Longrightarrow> toNum (a + b) = toNum a + toNum b"
  by (cases a; cases b) (simp_all add: finiteValue_def)

lemma sum_update:
  assumes "\<forall>v\<in>snd ` set m. finiteValue v" and "finiteValue v" and "\<not> inherited k"
  shows "sum_list (map (\<lambda>e. toNum (snd e)) (AList.update k (propOrZero (getProp m k) + v) m))
     = sum_list (map (\<lambda>e. toNum (snd e)) m) + toNum v"
  using assms(1)
proof (induction m)
  case Nil
  then show ?case
    using assms(2,3)
    by (simp add: getProp_def propOrZero_def toNum_plus finiteValue_zero zero_plus)
next
  case (Cons e m)
  obtain k' v' where e: "e = (k', v')" by (cases e)
  show ?case
  proof (cases "k' = k")
    case True
    have "finiteValue v'" using Cons.prems e by simp
    then have "toNum (propOrZero (Own v') + v) = toNum v' + toNum v"
      using assms(2) by (simp add: propOrZero_def orZeroV_finite toNum_plus)
    with True e show ?thesis
      by (simp add: getProp_def ac_simps)
  next
    case False
    have "\<forall>v\<in>snd ` set m. finiteValue v" using Cons.prems by simp
    then have "sum_list (map (\<lambda>e. toNum (snd e))
          (AList.update k (propOrZero (getProp m k) + v) m))
        = sum_list (map (\<lambda>e. toNum (snd e)) m) + toNum v"
      by (rule Cons.IH)
    moreover have "getProp (e # m) k = getProp m k"
      using False e by (simp add: getProp_def)
    ultimately show ?thesis
      using False e by (simp add: add.assoc)
  qed
qed

lemma sum_setProp:
  assumes "\<forall>v\<in>snd ` set m. finiteValue v" and "finiteValue v" and "\<not> inherited k"
  shows "sum_list (map (\<lambda>e. toNum (snd e)) (setProp k (propOrZero (getProp m k) + v) m))
     = sum_list (map (\<lambda>e. toNum (snd e)) m) + toNum v"
proof -
  have "k \<noteq> ''__proto__''"
    using assms(3) inherited_proto by auto
  then show ?thesis
    using sum_update [OF assms] by (simp add: setProp_def)
qed

lemma finite_setProp:
  assumes "\<forall>v\<in>snd ` set m. finiteValue v" and "finiteValue v" and "\<not> inherited k"
  shows "\<forall>v\<in>snd ` set (setProp k (propOrZero (getProp m k) + v) m). finiteValue v"
proof -
  have "\<And>w. getProp m k = Own w \<Longrightarrow> finiteValue w"
  proof -
    fix w assume "getProp m k = Own w"
    then have "map_of m k = Some w"
      by (simp add: getProp_def split: option.splits if_splits)
    then have "(k, w) \<in> set m" by (rule map_of_SomeD)
    then have "w \<in> snd ` set m" by (metis image_eqI snd_conv)
    with assms(1) show "finiteValue w" by blast
  qed
  with assms(3) have "finiteValue (propOrZero (getProp m k))"
    by (rule propOrZero_finite)
  then have "finiteValue (propOrZero (getProp m k) + v)"
    using assms(2) by (rule finiteValue_plus)
  with assms(1) show ?thesis
    by (rule all_setProp)
qed

lemma sum_foldl_addTrade:
  assumes "\<forall>t\<in>set ts. dateStr t \<noteq> [] \<and> \<not> inherited (dateStr t)
      \<and> isFinite (Number (profitUSD t))"
    and "\<forall>v\<in>snd ` set m. finiteValue v"
  shows "sum_list (map (\<lambda>e. toNum (snd e)) (foldl addTrade m ts))
       = sum_list (map (\<lambda>e. toNum (snd e)) m) + sum_list (map (\<lambda>t. Number (profitUSD t)) ts)
     \<and> (\<forall>v\<in>snd ` set (foldl addTrade m ts). finiteValue v)"
  using assms
proof (induction ts arbitrary: m)
  case Nil
  then show ?case
    using add_0_right [of "sum_list (map (\<lambda>e. toNum (snd e)) m)"] by simp
next
  case (Cons t ts)
  have key: "dateStr t \<noteq> []" and plain: "\<not> inherited (dateStr t)"
    and head: "finiteValue (NumV (Number (profitUSD t)))"
    using Cons.prems(1) by (simp_all add: finiteValue_NumV)
  have rest: "\<forall>t\<in>set ts. dateStr t \<noteq> [] \<and> \<not> inherited (dateStr t)
      \<and> isFinite (Number (profitUSD t))"
    using Cons.prems(1) by simp
  have now: "addTrade m t = setProp (dateStr t)
      (propOrZero (getProp m (dateStr t)) + NumV (Number (profitUSD t))) m"
    using key by (simp add: addTrade_def Let_def)
  have fin: "\<forall>v\<in>snd ` set (addTrade m t). finiteValue v"
    unfolding now using Cons.prems(2) head plain by (rule finite_setProp)
  have step: "sum_list (map (\<lambda>e. toNum (snd e)) (addTrade m t))
      = sum_list (map (\<lambda>e. toNum (snd e)) m) + Number (profitUSD t)"
    unfolding now using sum_setProp [OF Cons.prems(2) head plain] by simp
  show ?case
    using Cons.IH [OF rest fin] step by (simp add: add.assoc)
qed

lemma sum_foldl_addDay:
  assumes "\<forall>b\<in>set days. \<not> inherited (take 7 (DailyData.date b))
      \<and> finiteValue (DailyData.profit b)"
    and "\<forall>v\<in>snd ` set m. finiteValue v"
  shows "sum_list (map (\<lambda>e. toNum (snd e)) (foldl addDay m days))
       = sum_list (map (\<lambda>e. toNum (snd e)) m) + sum_list (map (\<lambda>b. toNum (DailyData.profit b)) days)
     \<and> (\<forall>v\<in>snd ` set (foldl addDay m days). finiteValue v)"
  using assms
proof (induction days arbitrary: m)
  case Nil
  then show ?case
    using add_0_right [of "sum_list (map (\<lambda>e. toNum (snd e)) m)"] by simp
next
  case (Cons b days)
  have plain: "\<not> inherited (take 7 (DailyData.date b))"
    and head: "finiteValue (DailyData.profit b)"
    using Cons.prems(1) by simp_all
  have rest: "\<forall>b\<in>set days. \<not> inherited (take 7 (DailyData.date b))
      \<and> finiteValue (DailyData.profit b)"
    using Cons.prems(1) by simp
  have now: "addDay m b = setProp (take 7 (DailyData.date b))
      (propOrZero (getProp m (take 7 (DailyData.date b))) + DailyData.profit b) m"
    by (simp add: addDay_def Let_def)
  have fin: "\<forall>v\<in>snd ` set (addDay m b). finiteValue v"
    unfolding now using Cons.prems(2) head plain by (rule finite_setProp)
  have step: "sum_list (map (\<lambda>e. toNum (snd e)) (addDay m b))
      = sum_list (map (\<lambda>e. toNum (snd e)) m) + toNum (DailyData.profit b)"
    unfolding now using Cons.prems(2) head plain by (rule sum_setProp)
  show ?case
    using Cons.IH [OF rest fin] step by (simp add: add.assoc)
qed

lemma sum_list_mset_cong:
  fixes xs ys :: "jsnum list"
  shows "mset xs = mset ys \<Longrightarrow> sum_list xs = sum_list ys"
  by (metis sum_mset_sum_list)

lemma sumV_rearranged:
  assumes "mset vs = mset ws" and "\<forall>v\<in>set ws. finiteValue v"
  shows "sumV vs = NumV (sum_list (map toNum ws))"
proof -
  have "set vs = set ws"
    using assms(1) by (metis set_mset_mset)
  with assms(2) have "\<forall>v\<in>set vs. isNumber v"
    by (simp add: finite_number)
  then have "sumV vs = NumV (sum_list (map toNum vs))"
    by (rule sumV_numbers)
  moreover have "mset (map toNum vs) = mset (map toNum ws)"
    using assms(1) by (metis mset_map)
  ultimately show ?thesis
    using sum_list_mset_cong by metis
qed

lemma profits_computeDailyData_mset:
  "mset (map DailyData.profit (computeDailyData dp trades ib)) = mset (map snd (dailyProfitMap trades))"
proof -
  have "mset (map DailyData.profit (dailyEntries dp trades))
      = mset (map DailyData.profit (map (\<lambda>(k, v). \<lparr>DailyData.date = k, DailyData.profit = v,
                       DailyData.cumulativeProfit = NumV (Fin 0),
                       DailyData.balance = NumV (Fin 0), dailyPercentChange = NumV (Fin 0)\<rparr>)
                  (objectEntries (dailyProfitMap trades))))"
    unfolding dailyEntries_def by (rule mset_map_sortBy)
  also have "\<dots> = mset (map snd (objectEntries (dailyProfitMap trades)))"
    by (simp add: case_prod_unfold comp_def)
  also have "\<dots> = mset (map snd (dailyProfitMap trades))"
    using mset_objectEntries [of "dailyProfitMap trades"] by (metis mset_map)
  finally show ?thesis
    by (simp add: computeDailyData_def profits_walkDaily)
qed

lemma daily_sum:
  assumes "\<forall>t\<in>set trades. isValid t \<longrightarrow>
      dateStr t \<noteq> [] \<and> \<not> inherited (dateStr t) \<and> isFinite (Number (profitUSD t))"
  shows "sumV (map DailyData.profit (computeDailyData dp trades ib))
       = NumV (sumOf (profitArray trades))
     \<and> (\<forall>b\<in>set (computeDailyData dp trades ib). finiteValue (DailyData.profit b))"
proof -
  have valid: "\<forall>t\<in>set (validTrades trades). dateStr t \<noteq> [] \<and> \<not> inherited (dateStr t)
      \<and> isFinite (Number (profitUSD t))"
    using assms by (simp add: validTrades_def)
  have none: "\<forall>v\<in>snd ` set ([] :: jsval object). finiteValue v"
    by simp
  note map = sum_foldl_addTrade [OF valid none]
  from map have fin: "\<forall>v\<in>set (map snd (dailyProfitMap trades)). finiteValue v"
    by (simp add: dailyProfitMap_def)
  from map have total: "sum_list (map toNum (map snd (dailyProfitMap trades)))
      = sumOf (profitArray trades)"
    by (simp add: dailyProfitMap_def sumOf_sum_list profitArray_def comp_def zero_plus)
  have "sumV (map DailyData.profit (computeDailyData dp trades ib))
      = NumV (sum_list (map toNum (map snd (dailyProfitMap trades))))"
    using profits_computeDailyData_mset fin by (rule sumV_rearranged)
  with total have sum: "sumV (map DailyData.profit (computeDailyData dp trades ib))
       = NumV (sumOf (profitArray trades))"
    by simp
  have "set (map DailyData.profit (computeDailyData dp trades ib))
      = set (map snd (dailyProfitMap trades))"
    using profits_computeDailyData_mset [of dp trades ib] by (metis set_mset_mset)
  with fin have "\<forall>v\<in>set (map DailyData.profit (computeDailyData dp trades ib)). finiteValue v"
    by simp
  then have "\<forall>b\<in>set (computeDailyData dp trades ib). finiteValue (DailyData.profit b)"
    by simp
  with sum show ?thesis
    by blast
qed

lemma monthly_sum:
  assumes "\<forall>b\<in>set days. \<not> inherited (take 7 (DailyData.date b))
      \<and> finiteValue (DailyData.profit b)"
  shows "sumV (map MonthlyData.profit (computeMonthlyData lc days ib))
     = sumV (map DailyData.profit days)"
proof -
  have none: "\<forall>v\<in>snd ` set ([] :: jsval object). finiteValue v"
    by simp
  note map = sum_foldl_addDay [OF assms none]
  from map have fin: "\<forall>v\<in>set (map snd (monthlyProfitMap days)). finiteValue v"
    by (simp add: monthlyProfitMap_def)
  from map have total: "sum_list (map toNum (map snd (monthlyProfitMap days)))
      = sum_list (map toNum (map DailyData.profit days))"
    by (simp add: monthlyProfitMap_def comp_def zero_plus)
  have "mset (map snd (monthlyDataArray lc days)) = mset (map snd (monthlyProfitMap days))"
    using mset_monthlyDataArray [of lc days] by (metis mset_map)
  then have "sumV (map snd (monthlyDataArray lc days))
      = NumV (sum_list (map toNum (map snd (monthlyProfitMap days))))"
    using fin by (rule sumV_rearranged)
  moreover have "\<forall>v\<in>set (map DailyData.profit days). isNumber v"
    using assms by (simp add: finite_number)
  then have "sumV (map DailyData.profit days)
      = NumV (sum_list (map toNum (map DailyData.profit days)))"
    by (rule sumV_numbers)
  ultimately show ?thesis
    using total by (simp add: computeMonthlyData_def profits_walkMonthly)
qed

text \<open>
  Claim C2, as amended. For every list of trade rows in which every valid row has a
  finite profit and a bucket key that is not empty (its close date is present, not empty
  and does not begin with a space) and that is, like its first seven characters, no name
  of \<^verbatim>\<open>Object.prototype\<close>, the profits of the \<^verbatim>\<open>dailyData\<close> buckets add up to
  \<^verbatim>\<open>totalProfit\<close>, and so do the profits of the \<^verbatim>\<open>monthlyData\<close> buckets. The sums are
  those of exact arithmetic: the code adds the same numbers in another order, so its sums
  agree up to rounding, and the bound on the magnitudes (which the exact sums of the
  model do not need) keeps each of them from overflowing.
\<close>

theorem bucket_profits_add_up:
  assumes "\<forall>t\<in>set trades. isValid t \<longrightarrow>
      dateStr t \<noteq> [] \<and> \<not> inherited (dateStr t) \<and> \<not> inherited (take 7 (dateStr t))
      \<and> isFinite (Number (profitUSD t))"
    and "sum_list (map magnitude (profitArray trades)) < 2 ^ 1023"
    and "stats = computeStats dp lc trades ib"
  shows "sumV (map DailyData.profit (dailyData stats)) = NumV (totalProfit stats)
    \<and> sumV (map MonthlyData.profit (monthlyData stats)) = NumV (totalProfit stats)"
proof -
  let ?days = "computeDailyData dp trades ib"
  have "\<forall>t\<in>set trades. isValid t \<longrightarrow>
      dateStr t \<noteq> [] \<and> \<not> inherited (dateStr t) \<and> isFinite (Number (profitUSD t))"
    using assms(1) by blast
  then have daily: "sumV (map DailyData.profit ?days) = NumV (sumOf (profitArray trades))
     \<and> (\<forall>b\<in>set ?days. finiteValue (DailyData.profit b))"
    by (rule daily_sum)
  have months: "\<forall>b\<in>set ?days. \<not> inherited (take 7 (DailyData.date b))"
  proof
    fix b assume "b \<in> set ?days"
    then have "DailyData.date b \<in> set (map DailyData.date ?days)"
      by simp
    then have "\<exists>t. t \<in> set trades \<and> isValid t \<and> DailyData.date b = dateStr t"
      unfolding set_dates by auto
    with assms(1) show "\<not> inherited (take 7 (DailyData.date b))"
      by metis
  qed
  with daily have "\<forall>b\<in>set ?days. \<not> inherited (take 7 (DailyData.date b))
      \<and> finiteValue (DailyData.profit b)"
    by blast
  then have "sumV (map MonthlyData.profit (computeMonthlyData lc ?days ib))
      = sumV (map DailyData.profit ?days)"
    by (rule monthly_sum)
  with daily show ?thesis
    unfolding assms(3) dailyData_computeStats monthlyData_computeStats totalProfit_computeStats
    by simp
qed

lemma scenarioA_profits: "profitArray scenarioA = [Fin 100, Fin (- 50), Fin 20]"
  by (simp add: profitArray_def scenarioA_count) (simp add: scenarioA_def)

lemma scenarioA_dated:
  "\<forall>t\<in>set scenarioA. isValid t \<longrightarrow>
      dateStr t \<noteq> [] \<and> \<not> inherited (dateStr t) \<and> \<not> inherited (take 7 (dateStr t))
      \<and> isFinite (Number (profitUSD t))"
  by (simp add: scenarioA_def dateStr_def Let_def isFinite_def plain_days)

text \<open>Scenario A: both sums are 70.\<close>

theorem bucket_profits_add_up_witness:
  "sum_list (map magnitude (profitArray scenarioA)) = 170
   \<and> sumV (map DailyData.profit
      (dailyData (computeStats utcDateParse compareCodeUnits scenarioA (Fin 1000)))) = NumV (Fin 70)
   \<and> sumV (map MonthlyData.profit
      (monthlyData (computeStats utcDateParse compareCodeUnits scenarioA (Fin 1000)))) = NumV (Fin 70)"
proof -
  have size: "sum_list (map magnitude (profitArray scenarioA)) = 170"
    by (simp add: scenarioA_profits magnitude_def)
  then have small: "sum_list (map magnitude (profitArray scenarioA)) < 2 ^ 1023"
    by simp
  show ?thesis
    using bucket_profits_add_up [OF scenarioA_dated small refl, of utcDateParse compareCodeUnits
        "Fin 1000"] scenarioA_total size
    by simp
qed

lemma noCloseDate_map: "dailyProfitMap noCloseDate = []"
  by (simp add: noCloseDate_def dailyProfitMap_def validTrades_def isValid_def isNaN_def
      addTrade_def dateStr_def)

lemma noCloseDate_total: "sumOf (profitArray noCloseDate) = Fin 5"
  by (simp add: noCloseDate_def profitArray_def validTrades_def isValid_def isNaN_def sumOf_def)

text \<open>
  Claim C2, as stated, holds for every list of trade rows. A valid trade with an empty
  close date is counted in \<^verbatim>\<open>totalProfit\<close> and skipped by the guard of line 358, so it is
  in no bucket. And when the running sum of a bucket is \<^verbatim>\<open>NaN\<close> (here the profits
  \<^verbatim>\<open>Infinity\<close> and \<^verbatim>\<open>-Infinity\<close> on one day), \<^verbatim>\<open>|| 0\<close> of line 359 starts the bucket
  again from \<^verbatim>\<open>0\<close>, while \<^verbatim>\<open>totalProfit\<close> stays \<^verbatim>\<open>NaN\<close>.
\<close>

theorem bucket_profits_short_counterexample:
  "totalProfit (computeStats utcDateParse compareCodeUnits noCloseDate (Fin 0)) = Fin 5
   \<and> dailyData (computeStats utcDateParse compareCodeUnits noCloseDate (Fin 0)) = []
   \<and> monthlyData (computeStats utcDateParse compareCodeUnits noCloseDate (Fin 0)) = []
   \<and> sumV (map DailyData.profit
        (dailyData (computeStats utcDateParse compareCodeUnits noCloseDate (Fin 0))))
       \<noteq> NumV (totalProfit (computeStats utcDateParse compareCodeUnits noCloseDate (Fin 0)))
   \<and> sumV (map MonthlyData.profit
        (monthlyData (computeStats utcDateParse compareCodeUnits noCloseDate (Fin 0))))
       \<noteq> NumV (totalProfit (computeStats utcDateParse compareCodeUnits noCloseDate (Fin 0)))
   \<and> map DailyData.profit
        (dailyData (computeStats utcDateParse compareCodeUnits infiniteProfits (Fin 0)))
       = [NumV (Fin 5)]
   \<and> totalProfit (computeStats utcDateParse compareCodeUnits infiniteProfits (Fin 0)) = NaN"
proof -
  have days: "computeDailyData utcDateParse noCloseDate (Fin 0) = []"
    by (simp add: computeDailyData_def dailyEntries_def noCloseDate_map objectEntries_def
        sortBy_def)
  have months: "computeMonthlyData compareCodeUnits [] (Fin 0) = []"
    by (simp add: computeMonthlyData_def monthlyDataArray_def monthlyProfitMap_def
        objectEntries_def sortBy_def)
  show ?thesis
    by (simp add: dailyData_computeStats monthlyData_computeStats totalProfit_computeStats
        days months infiniteProfits_days noCloseDate_total infiniteProfits_total sumV_def)
qed

section \<open>The patch\<close>

lemma length_patchDaily: "length (patchDaily pm days) = length days"
  by (simp add: patchDaily_def)

lemma nth_patchDaily:
  assumes "i < length days"
  shows "DailyData.date (patchDaily pm days ! i) = DailyData.date (days ! i)
    \<and> DailyData.profit (patchDaily pm days ! i) = DailyData.profit (days ! i)
    \<and> DailyData.cumulativeProfit (patchDaily pm days ! i) = DailyData.cumulativeProfit (days ! i)
    \<and> DailyData.balance (patchDaily pm days ! i) = DailyData.balance (days ! i)
    \<and> dailyPercentChange (patchDaily pm days ! i) =
        (case getProp pm (DailyData.date (days ! i)) of
           Own v \<Rightarrow> NumV v
         | Proto \<Rightarrow> ProtoV
         | Missing \<Rightarrow> dailyPercentChange (days ! i))"
  using assms by (simp add: patchDaily_def split: lookup.splits)

lemma length_patchMonthly: "length (patchMonthly pm months) = length months"
  by (simp add: patchMonthly_def)

lemma nth_patchMonthly:
  assumes "i < length months"
  shows "month (patchMonthly pm months ! i) = month (months ! i)
    \<and> MonthlyData.profit (patchMonthly pm months ! i) = MonthlyData.profit (months ! i)
    \<and> MonthlyData.cumulativeProfit (patchMonthly pm months ! i)
        = MonthlyData.cumulativeProfit (months ! i)
    \<and> MonthlyData.balance (patchMonthly pm months ! i) = MonthlyData.balance (months ! i)
    \<and> monthlyPercentChange (patchMonthly pm months ! i) =
        (case getProp pm (month (months ! i)) of
           Own v \<Rightarrow> NumV v
         | Proto \<Rightarrow> ProtoV
         | Missing \<Rightarrow> monthlyPercentChange (months ! i))"
  using assms by (simp add: patchMonthly_def split: lookup.splits)

lemma handleFileUpload_series:
  assumes "handleFileUpload dp lc tradesData activityData = Inr result"
  shows "dailyData result =
      patchDaily (dailyPercentMap dp (realizedOf dp activityData))
        (dailyData (computeStats dp lc tradesData (initialBalance (sortedActivity dp activityData))))"
    and "monthlyData result =
      patchMonthly (monthlyPercentMap (monthlyOf dp activityData))
        (monthlyData (computeStats dp lc tradesData (initialBalance (sortedActivity dp activityData))))"
  using assms
  by (auto simp: handleFileUpload_def realizedOf_def monthlyOf_def Let_def split: if_splits)

lemma not_index_toString: "arrayIndex ''toString'' = None"
  by (simp add: arrayIndex_def digits_def digitTable_def)

lemma inherited_toString: "inherited ''toString''"
  by (simp add: inherited_def prototypeNames_def)

lemma inheritedCloseDate_map: "dailyProfitMap inheritedCloseDate = [(''toString'', TextV)]"
  by (simp add: inheritedCloseDate_def dailyProfitMap_def validTrades_def isValid_def isNaN_def
      addTrade_def dateStr_def Let_def setProp_def getProp_def inherited_toString propOrZero_def)

lemma inheritedCloseDate_days:
  "computeDailyData dp inheritedCloseDate (Fin 0) =
     [\<lparr>DailyData.date = ''toString'', DailyData.profit = TextV,
       DailyData.cumulativeProfit = TextV, DailyData.balance = TextV,
       dailyPercentChange = NumV (Fin 0)\<rparr>]"
  by (simp add: computeDailyData_def dailyEntries_def inheritedCloseDate_map objectEntries_def
      not_index_toString sortBy_def strictNe_zero Let_def)

lemma no_snapshot:
  "initialBalance (sortedActivity dp []) = Fin 0" "dailyPercentMap dp (realizedOf dp []) = []"
  by (simp_all add: initialBalance_def sortedActivity_def sortBy_def dailyPercentMap_def
      realizedOf_def equityData_def dailyRealizedMap_def sortedDates_def objectKeys_def
      objectEntries_def)

text \<open>
  Claim C7. The claim asks that the patch overwrite the percent change of exactly the
  buckets whose date (or month) has a change computed from the equity, that every other
  bucket keep its trade-derived percent change, and that the other fields, the number
  and the order of the buckets stay as they are. The code keeps the number, the order and
  the other fields, and it overwrites the percent change of a bucket whose date or month
  has a computed change. But the tests of lines 266 and 290 compare
  \<^verbatim>\<open>dailyPercentMap[item.date]\<close> and \<^verbatim>\<open>monthlyPercentMap[item.month]\<close> with
  \<^verbatim>\<open>undefined\<close>, and under a name of \<^verbatim>\<open>Object.prototype\<close> the value read is the
  inherited one: a bucket dated \<^verbatim>\<open>toString\<close> has its percent change replaced by that
  function although the equity sheet has no such day, here no day at all.
\<close>

theorem patch_overwrites_inherited_date:
  assumes "handleFileUpload dp lc tradesData activityData = Inr result"
    and "base = computeStats dp lc tradesData (initialBalance (sortedActivity dp activityData))"
    and "dayChange = dailyPercentMap dp (realizedOf dp activityData)"
    and "monthChange = monthlyPercentMap (monthlyOf dp activityData)"
  shows "length (dailyData result) = length (dailyData base)
    \<and> (\<forall>i<length (dailyData base).
          DailyData.date (dailyData result ! i) = DailyData.date (dailyData base ! i)
        \<and> DailyData.profit (dailyData result ! i) = DailyData.profit (dailyData base ! i)
        \<and> DailyData.cumulativeProfit (dailyData result ! i)
            = DailyData.cumulativeProfit (dailyData base ! i)
        \<and> DailyData.balance (dailyData result ! i) = DailyData.balance (dailyData base ! i)
        \<and> dailyPercentChange (dailyData result ! i) =
            (case getProp dayChange (DailyData.date (dailyData base ! i)) of
               Own v \<Rightarrow> NumV v
             | Proto \<Rightarrow> ProtoV
             | Missing \<Rightarrow> dailyPercentChange (dailyData base ! i)))
    \<and> length (monthlyData result) = length (monthlyData base)
    \<and> (\<forall>i<length (monthlyData base).
          month (monthlyData result ! i) = month (monthlyData base ! i)
        \<and> MonthlyData.profit (monthlyData result ! i) = MonthlyData.profit (monthlyData base ! i)
        \<and> MonthlyData.cumulativeProfit (monthlyData result ! i)
            = MonthlyData.cumulativeProfit (monthlyData base ! i)
        \<and> MonthlyData.balance (monthlyData result ! i) = MonthlyData.balance (monthlyData base ! i)
        \<and> monthlyPercentChange (monthlyData result ! i) =
            (case getProp monthChange (month (monthlyData base ! i)) of
               Own v \<Rightarrow> NumV v
             | Proto \<Rightarrow> ProtoV
             | Missing \<Rightarrow> monthlyPercentChange (monthlyData base ! i)))
    \<and> dailyPercentMap utcDateParse (realizedOf utcDateParse []) = []
    \<and> dailyData (computeStats utcDateParse compareCodeUnits inheritedCloseDate
          (initialBalance (sortedActivity utcDateParse []))) =
         [\<lparr>DailyData.date = ''toString'', DailyData.profit = TextV,
           DailyData.cumulativeProfit = TextV, DailyData.balance = TextV,
           dailyPercentChange = NumV (Fin 0)\<rparr>]
    \<and> dailyData (projr (handleFileUpload utcDateParse compareCodeUnits inheritedCloseDate [])) =
         [\<lparr>DailyData.date = ''toString'', DailyData.profit = TextV,
           DailyData.cumulativeProfit = TextV, DailyData.balance = TextV,
           dailyPercentChange = ProtoV\<rparr>]"
proof -
  have days: "dailyData result = patchDaily dayChange (dailyData base)"
    using handleFileUpload_series(1) [OF assms(1)] assms(2,3) by simp
  have months: "monthlyData result = patchMonthly monthChange (monthlyData base)"
    using handleFileUpload_series(2) [OF assms(1)] assms(2,4) by simp
  have frame: "length (dailyData result) = length (dailyData base)
    \<and> (\<forall>i<length (dailyData base).
          DailyData.date (dailyData result ! i) = DailyData.date (dailyData base ! i)
        \<and> DailyData.profit (dailyData result ! i) = DailyData.profit (dailyData base ! i)
        \<and> DailyData.cumulativeProfit (dailyData result ! i)
            = DailyData.cumulativeProfit (dailyData base ! i)
        \<and> DailyData.balance (dailyData result ! i) = DailyData.balance (dailyData base ! i)
        \<and> dailyPercentChange (dailyData result ! i) =
            (case getProp dayChange (DailyData.date (dailyData base ! i)) of
               Own v \<Rightarrow> NumV v
             | Proto \<Rightarrow> ProtoV
             | Missing \<Rightarrow> dailyPercentChange (dailyData base ! i)))
    \<and> length (monthlyData result) = length (monthlyData base)
    \<and> (\<forall>i<length (monthlyData base).
          month (monthlyData result ! i) = month (monthlyData base ! i)
        \<and> MonthlyData.profit (monthlyData result ! i) = MonthlyData.profit (monthlyData base ! i)
        \<and> MonthlyData.cumulativeProfit (monthlyData result ! i)
            = MonthlyData.cumulativeProfit (monthlyData base ! i)
        \<and> MonthlyData.balance (monthlyData result ! i) = MonthlyData.balance (monthlyData base ! i)
        \<and> monthlyPercentChange (monthlyData result ! i) =
            (case getProp monthChange (month (monthlyData base ! i)) of
               Own v \<Rightarrow> NumV v
             | Proto \<Rightarrow> ProtoV
             | Missing \<Rightarrow> monthlyPercentChange (monthlyData base ! i)))"
    unfolding days months
    using nth_patchDaily [of _ "dailyData base" dayChange]
      nth_patchMonthly [of _ "monthlyData base" monthChange]
    by (simp add: length_patchDaily length_patchMonthly)
  have before: "dailyData (computeStats utcDateParse compareCodeUnits inheritedCloseDate
          (initialBalance (sortedActivity utcDateParse []))) =
         [\<lparr>DailyData.date = ''toString'', DailyData.profit = TextV,
           DailyData.cumulativeProfit = TextV, DailyData.balance = TextV,
           dailyPercentChange = NumV (Fin 0)\<rparr>]"
    by (simp only: no_snapshot dailyData_computeStats inheritedCloseDate_days)
  have "handleFileUpload utcDateParse compareCodeUnits inheritedCloseDate []
      = Inr (projr (handleFileUpload utcDateParse compareCodeUnits inheritedCloseDate []))"
    by (simp add: handleFileUpload_def Let_def)
  then have "dailyData (projr (handleFileUpload utcDateParse compareCodeUnits inheritedCloseDate []))
      = patchDaily (dailyPercentMap utcDateParse (realizedOf utcDateParse []))
          (dailyData (computeStats utcDateParse compareCodeUnits inheritedCloseDate
             (initialBalance (sortedActivity utcDateParse []))))"
    by (rule handleFileUpload_series(1))
  then have after:
    "dailyData (projr (handleFileUpload utcDateParse compareCodeUnits inheritedCloseDate [])) =
         [\<lparr>DailyData.date = ''toString'', DailyData.profit = TextV,
           DailyData.cumulativeProfit = TextV, DailyData.balance = TextV,
           dailyPercentChange = ProtoV\<rparr>]"
    by (simp only: no_snapshot dailyData_computeStats inheritedCloseDate_days)
       (simp add: patchDaily_def getProp_def inherited_toString)
  from frame before after no_snapshot(2) [of utcDateParse] show ?thesis
    by blast
qed

lemma secondDayOnly_realized:
  "realizedOf utcDateParse secondDayOnly = [(''2024-01-02'', Fin 1100)]"
  by (simp add: realizedOf_def secondDayOnly_def sortedActivity_def sortBy_def equityData_def
      dailyRealizedMap_def rawDate_def formatDate_def orZero_def truthyNum_def setProp_def)

lemma secondDayOnly_changes:
  "dailyPercentMap utcDateParse (realizedOf utcDateParse secondDayOnly) = [(''2024-01-02'', Fin 0)]"
  by (simp add: secondDayOnly_realized dailyPercentMap_def sortedDates_def objectKeys_def
      objectEntries_def not_index_2024_01_02 sortBy_def setProp_def)

lemma secondDayOnly_month_changes:
  "monthlyPercentMap (monthlyOf utcDateParse secondDayOnly) = [(''2024-01'', Fin 0)]"
  by (simp add: monthlyOf_def secondDayOnly_realized sortedDates_def objectKeys_def
      objectEntries_def not_index_2024_01_02 not_index_2024_01 sortBy_def setProp_def
      monthlyRealizedMap_def numProp_def getProp_def monthlyPercentMap_def sortStrings_def)

lemma secondDayOnly_balance:
  "initialBalance (sortedActivity utcDateParse secondDayOnly) = Fin 1000"
  by (simp add: secondDayOnly_def sortedActivity_def sortBy_def initialBalance_def truthyNum_def)

text \<open>Scenario A with an equity sheet for its second day only: the first day keeps the
  change derived from the trades, the second day and the month take the equity's.\<close>

theorem patch_overwrites_inherited_date_witness:
  "length (dailyData (projr (handleFileUpload utcDateParse compareCodeUnits scenarioA secondDayOnly))) = 2
   \<and> dailyPercentChange
        (dailyData (projr (handleFileUpload utcDateParse compareCodeUnits scenarioA secondDayOnly)) ! 0)
       = NumV (Fin 5)
   \<and> dailyPercentChange
        (dailyData (projr (handleFileUpload utcDateParse compareCodeUnits scenarioA secondDayOnly)) ! 1)
       = NumV (Fin 0)
   \<and> DailyData.balance
        (dailyData (projr (handleFileUpload utcDateParse compareCodeUnits scenarioA secondDayOnly)) ! 1)
       = NumV (Fin 1070)
   \<and> monthlyPercentChange
        (monthlyData (projr (handleFileUpload utcDateParse compareCodeUnits scenarioA secondDayOnly)) ! 0)
       = NumV (Fin 0)"
proof -
  let ?result = "projr (handleFileUpload utcDateParse compareCodeUnits scenarioA secondDayOnly)"
  let ?base = "computeStats utcDateParse compareCodeUnits scenarioA
      (initialBalance (sortedActivity utcDateParse secondDayOnly))"
  have "list_all (\<lambda>row. isString (Date row)) secondDayOnly"
    by (simp add: secondDayOnly_def isString_def)
  then have up: "handleFileUpload utcDateParse compareCodeUnits scenarioA secondDayOnly = Inr ?result"
    by (simp add: handleFileUpload_def Let_def)
  have days: "dailyData ?base = computeDailyData utcDateParse scenarioA (Fin 1000)"
    by (simp add: dailyData_computeStats secondDayOnly_balance)
  have months: "monthlyData ?base =
      computeMonthlyData compareCodeUnits (computeDailyData utcDateParse scenarioA (Fin 1000)) (Fin 1000)"
    by (simp add: monthlyData_computeStats secondDayOnly_balance)
  note facts = patch_overwrites_inherited_date [OF up refl refl refl]
  from facts have len: "length (dailyData ?result) = 2"
    by (simp add: days scenarioA_days)
  from facts have "\<forall>i<length (dailyData ?base).
      DailyData.balance (dailyData ?result ! i) = DailyData.balance (dailyData ?base ! i)
      \<and> dailyPercentChange (dailyData ?result ! i) =
          (case getProp (dailyPercentMap utcDateParse (realizedOf utcDateParse secondDayOnly))
                  (DailyData.date (dailyData ?base ! i)) of
             Own v \<Rightarrow> NumV v
           | Proto \<Rightarrow> ProtoV
           | Missing \<Rightarrow> dailyPercentChange (dailyData ?base ! i))"
    by blast
  note daily = this [rule_format]
  have day0: "dailyPercentChange (dailyData ?result ! 0) = NumV (Fin 5)"
    using daily [of 0]
    by (simp add: days secondDayOnly_changes scenarioA_days getProp_def plain_days)
  have day1: "dailyPercentChange (dailyData ?result ! 1) = NumV (Fin 0)
      \<and> DailyData.balance (dailyData ?result ! 1) = NumV (Fin 1070)"
    using daily [of 1]
    by (simp add: days secondDayOnly_changes scenarioA_days getProp_def plain_days)
  from facts have "\<forall>i<length (monthlyData ?base).
      monthlyPercentChange (monthlyData ?result ! i) =
          (case getProp (monthlyPercentMap (monthlyOf utcDateParse secondDayOnly))
                  (month (monthlyData ?base ! i)) of
             Own v \<Rightarrow> NumV v
           | Proto \<Rightarrow> ProtoV
           | Missing \<Rightarrow> monthlyPercentChange (monthlyData ?base ! i))"
    by blast
  note monthly = this [rule_format]
  have month: "monthlyPercentChange (monthlyData ?result ! 0) = NumV (Fin 0)"
    using monthly [of 0]
    by (simp add: months scenarioA_months secondDayOnly_month_changes getProp_def plain_days)
  from day0 day1 len month show ?thesis
    by simp
qed

section \<open>Close dates that are names of the prototype\<close>

text \<open>A trade that closes on \<^verbatim>\<open>__proto__\<close> gets no bucket, and a snapshot of that date
  no day; a trade that closes on \<^verbatim>\<open>constructor\<close> gets a bucket that holds a text.\<close>

lemma proto_close_date:
  "dailyProfitMap
     [\<lparr>profitUSD = Num (Fin 5), closeDate = Some ''__proto__''\<rparr>,
      \<lparr>profitUSD = Num (Fin 7), closeDate = Some ''01/01/2024''\<rparr>]
     = [(''2024-01-01'', NumV (Fin 7))]"
  by (simp add: dailyProfitMap_def validTrades_def isValid_def isNaN_def addTrade_def
      dateStr_def Let_def setProp_def getProp_def plain_days propOrZero_def)

lemma constructor_close_date:
  "dailyProfitMap
     [\<lparr>profitUSD = Num (Fin 5), closeDate = Some ''constructor''\<rparr>,
      \<lparr>profitUSD = Num (Fin 7), closeDate = Some ''constructor''\<rparr>]
     = [(''constructor'', TextV)]"
  by (simp add: dailyProfitMap_def validTrades_def isValid_def isNaN_def addTrade_def
      dateStr_def Let_def setProp_def getProp_def inherited_def prototypeNames_def
      propOrZero_def)

lemma proto_snapshot:
  "dailyRealizedMap
     [\<lparr>RealizedEquityData.date = ''2024-01-01'', realizedEquity = Fin 1000\<rparr>,
      \<lparr>RealizedEquityData.date = ''__proto__'', realizedEquity = Fin 1050\<rparr>,
      \<lparr>RealizedEquityData.date = ''2024-01-02'', realizedEquity = Fin 1100\<rparr>]
     = [(''2024-01-01'', Fin 1000), (''2024-01-02'', Fin 1100)]"
  by (simp add: dailyRealizedMap_def setProp_def)

end
